theory Spec2Isabelle
  imports Complex_Main "HOL-Library.Word"
begin

section \<open>Data model of contrib/jackc/pgx.v5\<close>

text \<open>
  The package wraps a pgx pool and a pgx transaction. Every wrapped method delegates to
  the underlying client and afterwards reports one span to the tracer. The model follows
  \<^verbatim>\<open>pool.go\<close> and \<^verbatim>\<open>tx.go\<close>: a method returns its Go result together with the list of
  effects it performed on its collaborators, in the order in which it performed them.
\<close>

type_synonym time = nat
type_synonym uint64 = "64 word"

text \<open>\<^verbatim>\<open>type QueryType string\<close> with its ten constants; \<open>string_of\<close> is the conversion
  \<^verbatim>\<open>string(qtype)\<close>.\<close>

datatype QueryType =
    QueryTypeConnect | QueryTypeQuery | QueryTypePing | QueryTypePrepare | QueryTypeExec
  | QueryTypeBegin | QueryTypeClose | QueryTypeCommit | QueryTypeRollback | QueryTypeCopyFrom

fun string_of :: "QueryType \<Rightarrow> string" where
  "string_of QueryTypeConnect = ''Connect''"
| "string_of QueryTypeQuery = ''Query''"
| "string_of QueryTypePing = ''Ping''"
| "string_of QueryTypePrepare = ''Prepare''"
| "string_of QueryTypeExec = ''Exec''"
| "string_of QueryTypeBegin = ''Begin''"
| "string_of QueryTypeClose = ''Close''"
| "string_of QueryTypeCommit = ''Commit''"
| "string_of QueryTypeRollback = ''Rollback''"
| "string_of QueryTypeCopyFrom = ''CopyFrom''"

definition keyDBMTraceInjected :: string where
  "keyDBMTraceInjected = ''_dd.dbm_trace_injected''"

text \<open>A Go \<^verbatim>\<open>error\<close> value; the nil error is \<open>None\<close> of \<open>error option\<close>.\<close>

datatype error = Error string

text \<open>A \<^verbatim>\<open>float64\<close> as far as the package looks at it: the only operation applied to the
  analytics rate is \<^verbatim>\<open>math.IsNaN\<close>.\<close>

datatype float64 = NaN | Number real

fun IsNaN :: "float64 \<Rightarrow> bool" where
  "IsNaN NaN = True"
| "IsNaN (Number x) = False"

text \<open>The values stored under a tag key (\<^verbatim>\<open>interface{}\<close>): the package stores strings,
  the boolean marker, the analytics rate and the error.\<close>

datatype tagval = StrV string | BoolV bool | FloatV float64 | ErrV error

text \<open>Modelled from the spec: the propagation modes of \<^verbatim>\<open>tracer.DBMPropagationMode\<close>
  (disabled / service-name-only / full-trace-context); the type is declared in the tracer
  package, of which the sources only use the constants for service and full.\<close>

datatype DBMPropagationMode =
    DBMPropagationModeDisabled | DBMPropagationModeService | DBMPropagationModeFull

text \<open>Modelled from the spec: the tag keys and values of package \<^verbatim>\<open>ddtrace/ext\<close>, which is
  not among the sources; the strings are those of the library.\<close>

definition ext_Component :: string where "ext_Component = ''component''"
definition ext_SpanKind :: string where "ext_SpanKind = ''span.kind''"
definition ext_SpanKindClient :: string where "ext_SpanKindClient = ''client''"
definition ext_DBSystem :: string where "ext_DBSystem = ''db.system''"
definition ext_SpanTypeSQL :: string where "ext_SpanTypeSQL = ''sql''"
definition ext_EventSampleRate :: string where "ext_EventSampleRate = ''_dd1.sr.eausr''"
definition ext_ResourceName :: string where "ext_ResourceName = ''resource.name''"
definition ext_Error :: string where "ext_Error = ''error''"

text \<open>Modelled from the spec: the option builders of the tracer that \<^verbatim>\<open>tryTrace\<close> and the
  transaction methods call (\<^verbatim>\<open>tracer.Tag\<close>, \<^verbatim>\<open>WithSpanID\<close>, \<^verbatim>\<open>StartTime\<close>, \<^verbatim>\<open>ServiceName\<close>,
  \<^verbatim>\<open>SpanType\<close>). An option list is applied in order.\<close>

datatype StartSpanOption =
    Tag string tagval
  | WithSpanID uint64
  | StartTime time
  | ServiceName string
  | SpanType string

text \<open>Modelled from the spec: the span object of the tracer. It keeps the name and the
  options it was started with and every \<^verbatim>\<open>SetTag\<close> call made on it, oldest first.\<close>

record span =
  operationName :: string
  startOptions :: "StartSpanOption list"
  setTagCalls :: "(string \<times> tagval) list"

text \<open>The identifiers of an active span (\<^verbatim>\<open>ddtrace.SpanContext\<close>): trace id and span id.\<close>

type_synonym SpanContext = "uint64 \<times> uint64"

text \<open>A \<^verbatim>\<open>context.Context\<close> as far as the package reads and writes it: the active span,
  the value stored under \<^verbatim>\<open>spanTagsKey\<close>, the execution-trace task and the flag set by
  \<^verbatim>\<open>internal.WithExecutionTraced\<close>. A Go map is the list of its entries in the order in
  which \<^verbatim>\<open>range\<close> visits them.\<close>

record Context =
  ctxSpan :: "SpanContext option"
  ctxSpanTags :: "(string \<times> string) list option"
  ctxTask :: "string option"
  ctxExecutionTraced :: bool

text \<open>\<^verbatim>\<open>tracer.SQLCommentCarrier\<close>, with the fields the package sets and reads.\<close>

record SQLCommentCarrier =
  Query :: string
  Mode :: DBMPropagationMode
  DBServiceName :: string
  SpanID :: uint64

text \<open>The \<^verbatim>\<open>config\<close> struct (declared in \<^verbatim>\<open>option.go\<close>), with the fields that
  \<^verbatim>\<open>pool.go\<close> and \<^verbatim>\<open>tx.go\<close> read. A nil map or nil function is \<open>None\<close>.\<close>

record config =
  serviceName :: string
  spanName :: string
  analyticsRate :: float64
  ignoreQueryTypes :: "QueryType set option"
  childSpansOnly :: bool
  errCheck :: "(error \<Rightarrow> bool) option"
  tags :: "(string \<times> tagval) list option"
  dbmPropagationMode :: DBMPropagationMode

record traceParams =
  cfg :: config
  meta :: "(string \<times> string) list"

text \<open>The collaborators outside the package whose answers the methods depend on:
  the clock, \<^verbatim>\<open>runtime/trace.IsEnabled\<close> and the carrier's \<^verbatim>\<open>Inject\<close>, which updates the
  carrier (its query and its span identifier) and may fail. Every method reads the clock
  once; \<open>Now\<close> is what that call of \<^verbatim>\<open>time.Now\<close> returns.\<close>

record runtime =
  Now :: time
  IsEnabled :: bool
  Inject :: "SQLCommentCarrier \<Rightarrow> SpanContext option \<Rightarrow> SQLCommentCarrier \<times> error option"

text \<open>A call either returns or panics.\<close>

datatype 'a outcome = Returns 'a | Panics

text \<open>The methods of the wrapped \<^verbatim>\<open>pgx.Tx\<close>, with the Go results as a pair of a result and
  an error, and the method \<^verbatim>\<open>Sanitize\<close> of \<^verbatim>\<open>pgx.Identifier\<close>. What they compute is up to
  the database client; every statement below holds for all of them.\<close>

record ('sd, 'ct, 'rows, 'row, 'arg, 'id, 'src) Tx =
  TxCommit :: "Context \<Rightarrow> error option outcome"
  TxRollback :: "Context \<Rightarrow> error option outcome"
  TxPrepare :: "Context \<Rightarrow> string \<Rightarrow> string \<Rightarrow> ('sd \<times> error option) outcome"
  TxExec :: "Context \<Rightarrow> string \<Rightarrow> 'arg list \<Rightarrow> ('ct \<times> error option) outcome"
  TxQuery :: "Context \<Rightarrow> string \<Rightarrow> 'arg list \<Rightarrow> ('rows \<times> error option) outcome"
  TxQueryRow :: "Context \<Rightarrow> string \<Rightarrow> 'arg list \<Rightarrow> 'row outcome"
  TxCopyFrom :: "Context \<Rightarrow> 'id \<Rightarrow> string list \<Rightarrow> 'src \<Rightarrow> (uint64 \<times> error option) outcome"
  Sanitize :: "'id \<Rightarrow> string"

record ('sd, 'ct, 'rows, 'row, 'arg, 'id, 'src) tracedTx =
  Tx :: "('sd, 'ct, 'rows, 'row, 'arg, 'id, 'src) Tx"
  traceParams :: traceParams

text \<open>\<^verbatim>\<open>LooselyTracedPool\<close> embeds the pool, of which the package calls \<^verbatim>\<open>BeginTx\<close>, and the
  tracing parameters.\<close>

record ('sd, 'ct, 'rows, 'row, 'arg, 'id, 'src, 'txopts) LooselyTracedPool =
  PoolBeginTx :: "Context \<Rightarrow> 'txopts \<Rightarrow>
    (('sd, 'ct, 'rows, 'row, 'arg, 'id, 'src) Tx \<times> error option) outcome"
  poolTraceParams :: traceParams

text \<open>The effects of the package on its collaborators: the begin and the end of an
  execution-trace task, a call of the carrier's \<^verbatim>\<open>Inject\<close>, a warning written to the log, a
  delegated call with the context and the SQL it is given, the start of a span with its
  options, and the finish of a span with everything that was set on it.\<close>

datatype call =
    CallBeginTx | CallCommit | CallRollback | CallPrepare | CallExec | CallQuery
  | CallQueryRow | CallCopyFrom

datatype event =
    TaskBegin string
  | TaskEnd string
  | InjectCall SQLCommentCarrier "SpanContext option"
  | LogWarn string error
  | Delegated call Context string
  | SpanStart string "StartSpanOption list"
  | SpanFinish span

section \<open>The operations\<close>

definition WithSpanTags :: "Context \<Rightarrow> (string \<times> string) list \<Rightarrow> Context" where
  "WithSpanTags ctx m = ctx\<lparr>ctxSpanTags := Some m\<rparr>"

definition SpanFromContext :: "Context \<Rightarrow> SpanContext option" where
  "SpanFromContext ctx = ctxSpan ctx"

text \<open>Modelled from the spec: \<^verbatim>\<open>tracer.StartSpanFromContext\<close> and \<^verbatim>\<open>span.SetTag\<close> of the
  tracer. A span starts with the options it is given; a call of \<^verbatim>\<open>SetTag\<close> is recorded
  after the earlier ones.\<close>

definition StartSpanFromContext :: "Context \<Rightarrow> string \<Rightarrow> StartSpanOption list \<Rightarrow> span" where
  "StartSpanFromContext ctx name opts =
     \<lparr>operationName = name, startOptions = opts, setTagCalls = []\<rparr>"

definition SetTag :: "span \<Rightarrow> string \<Rightarrow> tagval \<Rightarrow> span" where
  "SetTag s k v = s\<lparr>setTagCalls := setTagCalls s @ [(k, v)]\<rparr>"

text \<open>\<^verbatim>\<open>for k, v := range m { span.SetTag(k, v) }\<close>\<close>

fun SetTags :: "span \<Rightarrow> (string \<times> string) list \<Rightarrow> span" where
  "SetTags s [] = s"
| "SetTags s ((k, v) # m) = SetTags (SetTag s k (StrV v)) m"

text \<open>\<^verbatim>\<open>for key, tag := range tp.cfg.tags { opts = append(opts, tracer.Tag(key, tag)) }\<close>\<close>

fun appendTags :: "StartSpanOption list \<Rightarrow> (string \<times> tagval) list \<Rightarrow> StartSpanOption list" where
  "appendTags opts [] = opts"
| "appendTags opts ((key, tag) # m) = appendTags (opts @ [Tag key tag]) m"

definition injectComments ::
  "runtime \<Rightarrow> traceParams \<Rightarrow> Context \<Rightarrow> string \<Rightarrow> DBMPropagationMode \<Rightarrow>
     (string \<times> uint64) \<times> event list" where
  "injectComments rt tp ctx query mode =
     (let spanCtx = (case SpanFromContext ctx of Some s \<Rightarrow> Some s | None \<Rightarrow> None);
          carrier = \<lparr>Query = query, Mode = mode, DBServiceName = serviceName (cfg tp),
                     SpanID = 0\<rparr>;
          (carrier', err) = Inject rt carrier spanCtx
      in ((Query carrier', SpanID carrier'),
          InjectCall carrier spanCtx #
          (case err of
             Some e \<Rightarrow> [LogWarn ''contrib/jackc/pgx.v5: failed to inject query comments: %v'' e]
           | None \<Rightarrow> [])))"

definition withDBMTraceInjectedTag :: "DBMPropagationMode \<Rightarrow> StartSpanOption list" where
  "withDBMTraceInjectedTag mode =
     (if mode = DBMPropagationModeFull then [Tag keyDBMTraceInjected (BoolV True)] else [])"

definition tryTrace ::
  "traceParams \<Rightarrow> Context \<Rightarrow> QueryType \<Rightarrow> string \<Rightarrow> time \<Rightarrow> error option \<Rightarrow>
     StartSpanOption list \<Rightarrow> event list" where
  "tryTrace tp ctx qtype query startTime err spanOpts =
     (if (case ignoreQueryTypes (cfg tp) of None \<Rightarrow> False | Some m \<Rightarrow> qtype \<in> m) then []
      else if childSpansOnly (cfg tp) \<and> SpanFromContext ctx = None then []
      else
        let opts = spanOpts @
              [ServiceName (serviceName (cfg tp)),
               SpanType ext_SpanTypeSQL,
               StartTime startTime,
               Tag ext_Component (StrV ''pgx/v5''),
               Tag ext_SpanKind (StrV ext_SpanKindClient),
               Tag ext_DBSystem (StrV ''postgres'')];
            opts = (case tags (cfg tp) of None \<Rightarrow> opts | Some m \<Rightarrow> appendTags opts m);
            opts = (if \<not> IsNaN (analyticsRate (cfg tp))
                    then opts @ [Tag ext_EventSampleRate (FloatV (analyticsRate (cfg tp)))]
                    else opts);
            sp = StartSpanFromContext ctx (spanName (cfg tp)) opts;
            resource = (if query \<noteq> '''' then query else string_of qtype);
            sp = SetTag sp ''sql.query_type'' (StrV (string_of qtype));
            sp = SetTag sp ext_ResourceName (StrV resource);
            sp = SetTags sp (meta tp);
            sp = (case ctxSpanTags ctx of Some m \<Rightarrow> SetTags sp m | None \<Rightarrow> sp);
            sp = (case err of
                      Some e \<Rightarrow>
                        (if (case errCheck (cfg tp) of None \<Rightarrow> True | Some f \<Rightarrow> f e)
                         then SetTag sp ext_Error (ErrV e) else sp)
                    | None \<Rightarrow> sp)
        in [SpanStart (spanName (cfg tp)) opts, SpanFinish sp])"

text \<open>The closure returned by \<^verbatim>\<open>startTraceTask\<close> is the list of effects of calling it:
  none for \<^verbatim>\<open>noopTaskEnd\<close>, the end of the task for \<^verbatim>\<open>task.End\<close>. The context returned
  with it carries the task of \<^verbatim>\<open>trace.NewTask\<close> and the flag of
  \<^verbatim>\<open>internal.WithExecutionTraced\<close>.\<close>

definition noopTaskEnd :: "event list" where
  "noopTaskEnd = []"

definition startTraceTask ::
  "runtime \<Rightarrow> Context \<Rightarrow> string \<Rightarrow> (Context \<times> event list) \<times> event list" where
  "startTraceTask rt ctx name =
     (if \<not> IsEnabled rt then ((ctx, noopTaskEnd), [])
      else ((ctx\<lparr>ctxTask := Some name, ctxExecutionTraced := True\<rparr>, [TaskEnd name]),
            [TaskBegin name]))"

section \<open>The pool and transaction facades\<close>

text \<open>
  A deferred \<^verbatim>\<open>end()\<close> runs when the method leaves, after everything else in its body, and
  also when the delegated call panics; the panic then leaves the method before \<^verbatim>\<open>tryTrace\<close>
  is reached.
\<close>

definition LooselyTracedPool_BeginTx where
  "LooselyTracedPool_BeginTx rt tp ctx txOptions =
     (let start = Now rt;
          ((ctx', endTask), ev0) = startTraceTask rt ctx (string_of QueryTypeBegin);
          evs = ev0 @ [Delegated CallBeginTx ctx' '''']
      in case PoolBeginTx tp ctx' txOptions of
           Panics \<Rightarrow> (Panics, evs @ endTask)
         | Returns (tx, err) \<Rightarrow>
             let ev1 = tryTrace (poolTraceParams tp) ctx' QueryTypeBegin '''' start err []
             in (case err of
                   Some e \<Rightarrow> (Returns (None, err), evs @ ev1 @ endTask)
                 | None \<Rightarrow>
                     (Returns (Some \<lparr>Tx = tx, traceParams = poolTraceParams tp\<rparr>, None),
                      evs @ ev1 @ endTask)))"

definition tracedTx_Commit where
  "tracedTx_Commit rt t ctx =
     (let ((ctx', endTask), ev0) = startTraceTask rt ctx (string_of QueryTypeCommit);
          start = Now rt;
          evs = ev0 @ [Delegated CallCommit ctx' '''']
      in case TxCommit (Tx t) ctx' of
           Panics \<Rightarrow> (Panics, evs @ endTask)
         | Returns err \<Rightarrow>
             (Returns err,
              evs @ tryTrace (traceParams t) ctx' QueryTypeCommit '''' start err [] @ endTask))"

definition tracedTx_Rollback where
  "tracedTx_Rollback rt t ctx =
     (let ((ctx', endTask), ev0) = startTraceTask rt ctx (string_of QueryTypeRollback);
          start = Now rt;
          evs = ev0 @ [Delegated CallRollback ctx' '''']
      in case TxRollback (Tx t) ctx' of
           Panics \<Rightarrow> (Panics, evs @ endTask)
         | Returns err \<Rightarrow>
             (Returns err,
              evs @ tryTrace (traceParams t) ctx' QueryTypeRollback '''' start err [] @ endTask))"

definition tracedTx_Prepare where
  "tracedTx_Prepare rt t ctx name query =
     (let start = Now rt;
          mode = dbmPropagationMode (cfg (traceParams t));
          mode = (if mode = DBMPropagationModeFull then DBMPropagationModeService else mode);
          ((cquery, spanID), evi) = injectComments rt (traceParams t) ctx query mode;
          ((ctx', endTask), ev0) = startTraceTask rt ctx (string_of QueryTypePrepare);
          evs = evi @ ev0 @ [Delegated CallPrepare ctx' cquery]
      in case TxPrepare (Tx t) ctx' name cquery of
           Panics \<Rightarrow> (Panics, evs @ endTask)
         | Returns (stmt, err) \<Rightarrow>
             (Returns (stmt, err),
              evs @ tryTrace (traceParams t) ctx' QueryTypePrepare query start err
                      (withDBMTraceInjectedTag mode @ [WithSpanID spanID]) @ endTask))"

definition tracedTx_Exec where
  "tracedTx_Exec rt t ctx query args =
     (let start = Now rt;
          ((cquery, spanID), evi) =
             injectComments rt (traceParams t) ctx query (dbmPropagationMode (cfg (traceParams t)));
          ((ctx', endTask), ev0) = startTraceTask rt ctx (string_of QueryTypeExec);
          evs = evi @ ev0 @ [Delegated CallExec ctx' cquery]
      in case TxExec (Tx t) ctx' cquery args of
           Panics \<Rightarrow> (Panics, evs @ endTask)
         | Returns (r, err) \<Rightarrow>
             (Returns (r, err),
              evs @ tryTrace (traceParams t) ctx' QueryTypeExec query start err
                      (withDBMTraceInjectedTag (dbmPropagationMode (cfg (traceParams t)))
                       @ [WithSpanID spanID]) @ endTask))"

definition tracedTx_Query where
  "tracedTx_Query rt t ctx query args =
     (let start = Now rt;
          ((cquery, spanID), evi) =
             injectComments rt (traceParams t) ctx query (dbmPropagationMode (cfg (traceParams t)));
          ((ctx', endTask), ev0) = startTraceTask rt ctx (string_of QueryTypeQuery);
          evs = evi @ ev0 @ [Delegated CallQuery ctx' cquery]
      in case TxQuery (Tx t) ctx' cquery args of
           Panics \<Rightarrow> (Panics, evs @ endTask)
         | Returns (r, err) \<Rightarrow>
             (Returns (r, err),
              evs @ tryTrace (traceParams t) ctx' QueryTypeQuery query start err
                      (withDBMTraceInjectedTag (dbmPropagationMode (cfg (traceParams t)))
                       @ [WithSpanID spanID]) @ endTask))"

definition tracedTx_QueryRow where
  "tracedTx_QueryRow rt t ctx query args =
     (let start = Now rt;
          ((cquery, spanID), evi) =
             injectComments rt (traceParams t) ctx query (dbmPropagationMode (cfg (traceParams t)));
          ((ctx', endTask), ev0) = startTraceTask rt ctx (string_of QueryTypeQuery);
          evs = evi @ ev0 @ [Delegated CallQueryRow ctx' cquery]
      in case TxQueryRow (Tx t) ctx' cquery args of
           Panics \<Rightarrow> (Panics, evs @ endTask)
         | Returns r \<Rightarrow>
             (Returns r,
              evs @ tryTrace (traceParams t) ctx' QueryTypeQuery query start None
                      (withDBMTraceInjectedTag (dbmPropagationMode (cfg (traceParams t)))
                       @ [WithSpanID spanID]) @ endTask))"

text \<open>\<^verbatim>\<open>fmt.Sprintf("copy_from %s", tableName.Sanitize())\<close> is the SQL text reported for a
  bulk copy.\<close>

definition tracedTx_CopyFrom where
  "tracedTx_CopyFrom rt t ctx tableName columnNames rowSrc =
     (let start = Now rt;
          ((ctx', endTask), ev0) = startTraceTask rt ctx (string_of QueryTypeCopyFrom);
          evs = ev0 @ [Delegated CallCopyFrom ctx' '''']
      in case TxCopyFrom (Tx t) ctx' tableName columnNames rowSrc of
           Panics \<Rightarrow> (Panics, evs @ endTask)
         | Returns (r, err) \<Rightarrow>
             (Returns (r, err),
              evs @ tryTrace (traceParams t) ctx' QueryTypeCopyFrom
                      (''copy_from '' @ Sanitize (Tx t) tableName) start err [] @ endTask))"

section \<open>Observations on a run\<close>

fun spanStarts :: "event list \<Rightarrow> (string \<times> StartSpanOption list) list" where
  "spanStarts [] = []"
| "spanStarts (SpanStart n opts # es) = (n, opts) # spanStarts es"
| "spanStarts (e # es) = spanStarts es"

fun finishedSpans :: "event list \<Rightarrow> span list" where
  "finishedSpans [] = []"
| "finishedSpans (SpanFinish s # es) = s # finishedSpans es"
| "finishedSpans (e # es) = finishedSpans es"

text \<open>The SQL texts handed to the wrapped client, the modes handed to the carrier and the
  errors written to the log.\<close>

fun delegatedSQL :: "event list \<Rightarrow> string list" where
  "delegatedSQL [] = []"
| "delegatedSQL (Delegated c ctx q # es) = q # delegatedSQL es"
| "delegatedSQL (e # es) = delegatedSQL es"

fun injectModes :: "event list \<Rightarrow> DBMPropagationMode list" where
  "injectModes [] = []"
| "injectModes (InjectCall c sc # es) = Mode c # injectModes es"
| "injectModes (e # es) = injectModes es"

fun warnings :: "event list \<Rightarrow> error list" where
  "warnings [] = []"
| "warnings (LogWarn m e # es) = e # warnings es"
| "warnings (e # es) = warnings es"

fun isTaskEvent :: "event \<Rightarrow> bool" where
  "isTaskEvent (TaskBegin n) = True"
| "isTaskEvent (TaskEnd n) = True"
| "isTaskEvent e = False"

fun isTaskEnd :: "event \<Rightarrow> bool" where
  "isTaskEnd (TaskEnd n) = True"
| "isTaskEnd e = False"

fun isSpanEvent :: "event \<Rightarrow> bool" where
  "isSpanEvent (SpanStart n opts) = True"
| "isSpanEvent (SpanFinish s) = True"
| "isSpanEvent e = False"

text \<open>The ordering as the specification words it: no end of a task after an event of
  the span emitter.\<close>

fun taskEndNoLaterThanEmission :: "event list \<Rightarrow> bool" where
  "taskEndNoLaterThanEmission [] = True"
| "taskEndNoLaterThanEmission (e # es) =
     ((if isSpanEvent e then \<not> list_ex isTaskEnd es else True) \<and> taskEndNoLaterThanEmission es)"

text \<open>Modelled from the spec: the tags of a span are merged so that a later entry overrides
  an earlier one on key collision. The entries are the \<open>Tag\<close> options in the order of the
  option list, followed by the \<^verbatim>\<open>SetTag\<close> calls in the order in which they were made. The
  identifier of the span is the one of the last \<open>WithSpanID\<close> option. The service name, the
  span type and the start time stay options of their own: the emitter passes them before
  every tag source but the caller's options, and no statement below is about them.\<close>

fun optWrites :: "StartSpanOption \<Rightarrow> (string \<times> tagval) list" where
  "optWrites (Tag k v) = [(k, v)]"
| "optWrites opt = []"

definition spanWrites :: "span \<Rightarrow> (string \<times> tagval) list" where
  "spanWrites s = concat (map optWrites (startOptions s)) @ setTagCalls s"

definition spanTag :: "span \<Rightarrow> string \<Rightarrow> tagval option" where
  "spanTag s k = map_of (rev (spanWrites s)) k"

fun spanIDOverride :: "StartSpanOption list \<Rightarrow> uint64 option" where
  "spanIDOverride [] = None"
| "spanIDOverride (WithSpanID i # opts) =
     (case spanIDOverride opts of Some j \<Rightarrow> Some j | None \<Rightarrow> Some i)"
| "spanIDOverride (opt # opts) = spanIDOverride opts"

text \<open>A span carries an error tag when an error value was set on it under the error key.\<close>

fun isErrV :: "tagval \<Rightarrow> bool" where
  "isErrV (ErrV e) = True"
| "isErrV v = False"

definition errorTagged :: "span \<Rightarrow> bool" where
  "errorTagged s = list_ex (\<lambda>(k, v). k = ext_Error \<and> isErrV v) (setTagCalls s)"

text \<open>The tag sources that \<^verbatim>\<open>tryTrace\<close> merges, each as the list of its entries: the static
  configuration tags, the analytics rate (absent when the rate is NaN), the per-facade
  metadata, the tags carried by the context, and the error (present when the error is
  reportable: not nil, and accepted by the classifier when one is configured).\<close>

definition strTags :: "(string \<times> string) list \<Rightarrow> (string \<times> tagval) list" where
  "strTags m = map (\<lambda>(k, v). (k, StrV v)) m"

definition tagOptions :: "(string \<times> tagval) list \<Rightarrow> StartSpanOption list" where
  "tagOptions m = map (\<lambda>(k, v). Tag k v) m"

definition configTags :: "traceParams \<Rightarrow> (string \<times> tagval) list" where
  "configTags tp = (case tags (cfg tp) of None \<Rightarrow> [] | Some m \<Rightarrow> m)"

definition analyticsTag :: "traceParams \<Rightarrow> (string \<times> tagval) list" where
  "analyticsTag tp =
     (if IsNaN (analyticsRate (cfg tp)) then []
      else [(ext_EventSampleRate, FloatV (analyticsRate (cfg tp)))])"

definition metaTags :: "traceParams \<Rightarrow> (string \<times> tagval) list" where
  "metaTags tp = strTags (meta tp)"

definition ambientTags :: "Context \<Rightarrow> (string \<times> tagval) list" where
  "ambientTags ctx = (case ctxSpanTags ctx of None \<Rightarrow> [] | Some m \<Rightarrow> strTags m)"

definition reportable :: "traceParams \<Rightarrow> error option \<Rightarrow> bool" where
  "reportable tp err =
     (case err of
        None \<Rightarrow> False
      | Some e \<Rightarrow> (case errCheck (cfg tp) of None \<Rightarrow> True | Some f \<Rightarrow> f e))"

definition errorTag :: "traceParams \<Rightarrow> error option \<Rightarrow> (string \<times> tagval) list" where
  "errorTag tp err =
     (case err of None \<Rightarrow> [] | Some e \<Rightarrow> (if reportable tp err then [(ext_Error, ErrV e)] else []))"

definition configKeys :: "traceParams \<Rightarrow> string list" where
  "configKeys tp = map fst (configTags tp)"

definition metaKeys :: "traceParams \<Rightarrow> string list" where
  "metaKeys tp = map fst (meta tp)"

definition ambientKeys :: "Context \<Rightarrow> string list" where
  "ambientKeys ctx = (case ctxSpanTags ctx of None \<Rightarrow> [] | Some m \<Rightarrow> map fst m)"

text \<open>The merge order as the specification words it: static config tags, the analytics
  rate, the caller-supplied options, per-facade metadata, ambient tags.\<close>

definition specMergeOrder ::
  "traceParams \<Rightarrow> Context \<Rightarrow> StartSpanOption list \<Rightarrow> (string \<times> tagval) list" where
  "specMergeOrder tp ctx spanOpts =
     configTags tp @ analyticsTag tp @ concat (map optWrites spanOpts) @
     metaTags tp @ ambientTags ctx"

text \<open>The two suppression checks of \<^verbatim>\<open>tryTrace\<close>, the options it appends to the ones of its
  caller, the \<^verbatim>\<open>SetTag\<close> calls it makes and the span that results, written out as lists.
  Lemma \<open>tryTrace_eq\<close> relates them to \<open>tryTrace\<close>.\<close>

definition suppressed :: "traceParams \<Rightarrow> Context \<Rightarrow> QueryType \<Rightarrow> bool" where
  "suppressed tp ctx qtype =
     ((case ignoreQueryTypes (cfg tp) of None \<Rightarrow> False | Some m \<Rightarrow> qtype \<in> m) \<or>
      (childSpansOnly (cfg tp) \<and> SpanFromContext ctx = None))"

definition emitterOptions :: "traceParams \<Rightarrow> time \<Rightarrow> StartSpanOption list" where
  "emitterOptions tp startTime =
     [ServiceName (serviceName (cfg tp)), SpanType ext_SpanTypeSQL, StartTime startTime,
      Tag ext_Component (StrV ''pgx/v5''), Tag ext_SpanKind (StrV ext_SpanKindClient),
      Tag ext_DBSystem (StrV ''postgres'')] @
     tagOptions (configTags tp) @ tagOptions (analyticsTag tp)"

definition emitterSetTags ::
  "traceParams \<Rightarrow> Context \<Rightarrow> QueryType \<Rightarrow> string \<Rightarrow> error option \<Rightarrow> (string \<times> tagval) list" where
  "emitterSetTags tp ctx qtype query err =
     [(''sql.query_type'', StrV (string_of qtype)),
      (ext_ResourceName, StrV (if query \<noteq> '''' then query else string_of qtype))] @
     metaTags tp @ ambientTags ctx @ errorTag tp err"

definition emittedSpan ::
  "traceParams \<Rightarrow> Context \<Rightarrow> QueryType \<Rightarrow> string \<Rightarrow> time \<Rightarrow> error option \<Rightarrow>
     StartSpanOption list \<Rightarrow> span" where
  "emittedSpan tp ctx qtype query startTime err spanOpts =
     \<lparr>operationName = spanName (cfg tp),
      startOptions = spanOpts @ emitterOptions tp startTime,
      setTagCalls = emitterSetTags tp ctx qtype query err\<rparr>"

text \<open>The strength of a propagation mode: how much trace context it lets into the SQL.\<close>

fun strength :: "DBMPropagationMode \<Rightarrow> nat" where
  "strength DBMPropagationModeDisabled = 0"
| "strength DBMPropagationModeService = 1"
| "strength DBMPropagationModeFull = 2"

text \<open>Names for what a facade method obtains before it delegates: the context returned by
  \<^verbatim>\<open>startTraceTask\<close>, and the rewritten SQL and the span identifier returned by
  \<^verbatim>\<open>injectComments\<close>.\<close>

definition taskContext :: "runtime \<Rightarrow> Context \<Rightarrow> string \<Rightarrow> Context" where
  "taskContext rt ctx name = fst (fst (startTraceTask rt ctx name))"

definition rewrittenSQL ::
  "runtime \<Rightarrow> traceParams \<Rightarrow> Context \<Rightarrow> string \<Rightarrow> DBMPropagationMode \<Rightarrow> string" where
  "rewrittenSQL rt tp ctx query mode = fst (fst (injectComments rt tp ctx query mode))"

definition injectedSpanID ::
  "runtime \<Rightarrow> traceParams \<Rightarrow> Context \<Rightarrow> string \<Rightarrow> DBMPropagationMode \<Rightarrow> uint64" where
  "injectedSpanID rt tp ctx query mode = snd (fst (injectComments rt tp ctx query mode))"

text \<open>The ordering that the deferred \<^verbatim>\<open>end()\<close> gives: the run opens one task, ends it once,
  and the end of the task is the last effect of the run.\<close>

definition taskClosedLast :: "string \<Rightarrow> event list \<Rightarrow> bool" where
  "taskClosedLast name evs =
     (filter isTaskEvent evs = [TaskBegin name, TaskEnd name] \<and> last evs = TaskEnd name)"

text \<open>A run finishes no span when \<open>none\<close> holds, and otherwise exactly one span, of which
  \<open>P\<close> holds.\<close>

definition oneSpanUnless :: "bool \<Rightarrow> (span \<Rightarrow> bool) \<Rightarrow> span list \<Rightarrow> bool" where
  "oneSpanUnless none P spans =
     (if none then spans = [] else (case spans of [s] \<Rightarrow> P s | _ \<Rightarrow> False))"

text \<open>The resource name that the emitter sets on a span is the first \<^verbatim>\<open>SetTag\<close> call under
  the resource key; the per-facade metadata and the context tags are copied to the span
  after it. The rule for the resource \<open>r\<close>: the emitter set \<open>r\<close>, and the merged resource tag
  is the last value that the metadata or the context tags store under the resource key when
  one of them does, and \<open>r\<close> otherwise.\<close>

definition resourceSet :: "span \<Rightarrow> tagval option" where
  "resourceSet s = map_of (setTagCalls s) ext_ResourceName"

definition resourceRule :: "traceParams \<Rightarrow> Context \<Rightarrow> string \<Rightarrow> span \<Rightarrow> bool" where
  "resourceRule tp ctx r s =
     (resourceSet s = Some (StrV r) \<and>
      spanTag s ext_ResourceName =
        (case map_of (rev (metaTags tp @ ambientTags ctx)) ext_ResourceName of
           None \<Rightarrow> Some (StrV r)
         | Some v \<Rightarrow> Some v))"

text \<open>The error that a method returns to its caller, next to its result.\<close>

fun returnedError :: "('a \<times> error option) outcome \<Rightarrow> error option outcome" where
  "returnedError (Returns (r, err)) = Returns err"
| "returnedError Panics = Panics"

text \<open>The keys under which the user of the package supplies tags: the static configuration
  tags, the per-facade metadata and the tags carried by the context.\<close>

definition suppliedKeys :: "traceParams \<Rightarrow> Context \<Rightarrow> string list" where
  "suppliedKeys tp ctx = configKeys tp @ metaKeys tp @ ambientKeys ctx"


text \<open>The tags that the user of the package supplies, in the order in which the emitter
  merges them: static configuration tags, per-facade metadata, context tags.\<close>

definition suppliedTags :: "traceParams \<Rightarrow> Context \<Rightarrow> (string \<times> tagval) list" where
  "suppliedTags tp ctx = configTags tp @ metaTags tp @ ambientTags ctx"

text \<open>The rule for the error tag of a span, for a call that returned the error \<open>err\<close>: the
  emitter set the error tag exactly when \<open>err\<close> is reportable; then the merged error tag is
  \<open>err\<close>, and otherwise the merged tag under the error key is what the \<open>supplied\<close> tags
  store there, if anything. No span satisfies the rule for a call that panicked.\<close>

definition errorTagRule ::
  "traceParams \<Rightarrow> (string \<times> tagval) list \<Rightarrow> error option outcome \<Rightarrow> span \<Rightarrow> bool" where
  "errorTagRule tp supplied res s =
     (case res of
        Panics \<Rightarrow> False
      | Returns err \<Rightarrow>
          errorTagged s = reportable tp err \<and>
          spanTag s ext_Error =
            (if reportable tp err then map_option ErrV err
             else map_of (rev supplied) ext_Error))"

text \<open>The rule for the trace-injected marker of a span: the span was started with the
  options \<open>opts\<close>, and the merged marker tag is the last value that the supplied tags store
  under the marker key when one of them does, and otherwise the marker \<open>passed\<close> by the
  method.\<close>

definition markerRule ::
  "traceParams \<Rightarrow> Context \<Rightarrow> StartSpanOption list \<Rightarrow> tagval option \<Rightarrow> span \<Rightarrow> bool" where
  "markerRule tp ctx opts passed s =
     (startOptions s = opts \<and>
      spanTag s keyDBMTraceInjected =
        (case map_of (rev (suppliedTags tp ctx)) keyDBMTraceInjected of
           None \<Rightarrow> passed
         | Some v \<Rightarrow> Some v))"

section \<open>Example inputs\<close>

text \<open>A runtime with execution tracing switched on whose carrier prepends a comment and
  picks the span identifier 7; a configuration in full propagation mode; a context with an
  active span; a transaction whose calls succeed.\<close>

definition exampleInject :: "SQLCommentCarrier \<Rightarrow> SpanContext option \<Rightarrow> SQLCommentCarrier \<times> error option" where
  "exampleInject c sc = (c\<lparr>Query := ''/*dddbs=db*/ '' @ Query c, SpanID := 7\<rparr>, None)"

definition failingInject :: "SQLCommentCarrier \<Rightarrow> SpanContext option \<Rightarrow> SQLCommentCarrier \<times> error option" where
  "failingInject c sc = (c\<lparr>SpanID := 7\<rparr>, Some (Error ''carrier''))"

definition exampleRuntime :: runtime where
  "exampleRuntime = \<lparr>Now = 100, IsEnabled = True, Inject = exampleInject\<rparr>"

definition failingRuntime :: runtime where
  "failingRuntime = \<lparr>Now = 100, IsEnabled = True, Inject = failingInject\<rparr>"

definition exampleConfig :: config where
  "exampleConfig =
     \<lparr>serviceName = ''postgres.db'', spanName = ''pgx.query'', analyticsRate = NaN,
      ignoreQueryTypes = None, childSpansOnly = False, errCheck = None, tags = None,
      dbmPropagationMode = DBMPropagationModeFull\<rparr>"

definition exampleParams :: traceParams where
  "exampleParams = \<lparr>cfg = exampleConfig, meta = []\<rparr>"

definition exampleContext :: Context where
  "exampleContext =
     \<lparr>ctxSpan = Some (1, 2), ctxSpanTags = None, ctxTask = None, ctxExecutionTraced = False\<rparr>"

definition emptyContext :: Context where
  "emptyContext =
     \<lparr>ctxSpan = None, ctxSpanTags = None, ctxTask = None, ctxExecutionTraced = False\<rparr>"

definition exampleTx :: "(unit, unit, unit, unit, unit, string, unit) Tx" where
  "exampleTx =
     \<lparr>TxCommit = (\<lambda>ctx. Returns None),
      TxRollback = (\<lambda>ctx. Returns None),
      TxPrepare = (\<lambda>ctx name q. Returns ((), None)),
      TxExec = (\<lambda>ctx q args. Returns ((), None)),
      TxQuery = (\<lambda>ctx q args. Returns ((), None)),
      TxQueryRow = (\<lambda>ctx q args. Returns ()),
      TxCopyFrom = (\<lambda>ctx tbl cols src. Returns (0, None)),
      Sanitize = (\<lambda>tbl. tbl)\<rparr>"

definition failingTx :: "(unit, unit, unit, unit, unit, string, unit) Tx" where
  "failingTx =
     \<lparr>TxCommit = (\<lambda>ctx. Returns (Some (Error ''closed''))),
      TxRollback = (\<lambda>ctx. Returns (Some (Error ''closed''))),
      TxPrepare = (\<lambda>ctx name q. Returns ((), Some (Error ''closed''))),
      TxExec = (\<lambda>ctx q args. Returns ((), Some (Error ''closed''))),
      TxQuery = (\<lambda>ctx q args. Returns ((), Some (Error ''closed''))),
      TxQueryRow = (\<lambda>ctx q args. Returns ()),
      TxCopyFrom = (\<lambda>ctx tbl cols src. Returns (0, Some (Error ''closed''))),
      Sanitize = (\<lambda>tbl. tbl)\<rparr>"

definition exampleTracedTx :: "(unit, unit, unit, unit, unit, string, unit) tracedTx" where
  "exampleTracedTx = \<lparr>Tx = exampleTx, traceParams = exampleParams\<rparr>"

definition examplePool ::
  "(unit, unit, unit, unit, unit, string, unit, unit) LooselyTracedPool" where
  "examplePool =
     \<lparr>PoolBeginTx = (\<lambda>ctx opts. Returns (exampleTx, None)), poolTraceParams = exampleParams\<rparr>"

definition ignoringParams :: traceParams where
  "ignoringParams =
     \<lparr>cfg = exampleConfig\<lparr>ignoreQueryTypes := Some {QueryTypeExec, QueryTypeCommit}\<rparr>, meta = []\<rparr>"

definition childOnlyParams :: traceParams where
  "childOnlyParams = \<lparr>cfg = exampleConfig\<lparr>childSpansOnly := True\<rparr>, meta = []\<rparr>"

text \<open>A configuration, a facade and a context whose tag maps share keys with one another
  and with the marker that the transaction methods pass to the emitter.\<close>

definition taggedParams :: traceParams where
  "taggedParams =
     \<lparr>cfg = exampleConfig
        \<lparr>analyticsRate := Number (1 / 2),
         tags := Some [(''env'', StrV ''static''), (''team'', StrV ''static''),
                       (keyDBMTraceInjected, StrV ''static'')]\<rparr>,
      meta = [(''env'', ''facade''), (''team'', ''facade'')]\<rparr>"

definition taggedContext :: Context where
  "taggedContext = WithSpanTags exampleContext [(''env'', ''request'')]"

definition taggedTracedTx :: "(unit, unit, unit, unit, unit, string, unit) tracedTx" where
  "taggedTracedTx = \<lparr>Tx = exampleTx, traceParams = taggedParams\<rparr>"

text \<open>A facade whose classifier rejects the error of the failing transaction, and facades
  over the failing transaction.\<close>

definition lenientParams :: traceParams where
  "lenientParams =
     \<lparr>cfg = exampleConfig\<lparr>errCheck := Some (\<lambda>e. e \<noteq> Error ''closed'')\<rparr>, meta = []\<rparr>"

definition failingTracedTx :: "(unit, unit, unit, unit, unit, string, unit) tracedTx" where
  "failingTracedTx = \<lparr>Tx = failingTx, traceParams = exampleParams\<rparr>"

definition lenientTracedTx :: "(unit, unit, unit, unit, unit, string, unit) tracedTx" where
  "lenientTracedTx = \<lparr>Tx = failingTx, traceParams = lenientParams\<rparr>"

definition failingPool ::
  "(unit, unit, unit, unit, unit, string, unit, unit) LooselyTracedPool" where
  "failingPool =
     \<lparr>PoolBeginTx = (\<lambda>ctx opts. Returns (failingTx, Some (Error ''closed''))),
      poolTraceParams = exampleParams\<rparr>"

text \<open>A facade in service-only propagation mode.\<close>

definition serviceParams :: traceParams where
  "serviceParams =
     \<lparr>cfg = exampleConfig\<lparr>dbmPropagationMode := DBMPropagationModeService\<rparr>, meta = []\<rparr>"

definition serviceTracedTx :: "(unit, unit, unit, unit, unit, string, unit) tracedTx" where
  "serviceTracedTx = \<lparr>Tx = exampleTx, traceParams = serviceParams\<rparr>"

text \<open>A transaction whose \<^verbatim>\<open>Exec\<close> panics.\<close>

definition panickingTx :: "(unit, unit, unit, unit, unit, string, unit) Tx" where
  "panickingTx = exampleTx\<lparr>TxExec := (\<lambda>ctx q args. Panics)\<rparr>"

definition panickingTracedTx :: "(unit, unit, unit, unit, unit, string, unit) tracedTx" where
  "panickingTracedTx = \<lparr>Tx = panickingTx, traceParams = exampleParams\<rparr>"

text \<open>A context whose tags store a value under the resource key, a facade whose metadata
  stores a value under the error key, and the tagged facade in service-only mode.\<close>

definition resourceContext :: Context where
  "resourceContext = WithSpanTags exampleContext [(''resource.name'', ''mine'')]"

definition errorKeyParams :: traceParams where
  "errorKeyParams = \<lparr>cfg = exampleConfig, meta = [(''error'', ''boom'')]\<rparr>"

definition errorKeyTracedTx :: "(unit, unit, unit, unit, unit, string, unit) tracedTx" where
  "errorKeyTracedTx = \<lparr>Tx = exampleTx, traceParams = errorKeyParams\<rparr>"

definition taggedServiceParams :: traceParams where
  "taggedServiceParams =
     \<lparr>cfg = (cfg taggedParams)\<lparr>dbmPropagationMode := DBMPropagationModeService\<rparr>,
      meta = meta taggedParams\<rparr>"

definition taggedServiceTracedTx :: "(unit, unit, unit, unit, unit, string, unit) tracedTx" where
  "taggedServiceTracedTx = \<lparr>Tx = exampleTx, traceParams = taggedServiceParams\<rparr>"

section \<open>The span emitter\<close>

lemma appendTags_eq: "appendTags opts m = opts @ tagOptions m"
  by (induction opts m rule: appendTags.induct) (simp_all add: tagOptions_def)

lemma setTagCalls_SetTags:
  "setTagCalls (SetTags s m) = setTagCalls s @ strTags m"
  by (induction s m rule: SetTags.induct) (simp_all add: SetTag_def strTags_def)

lemma startOptions_SetTags: "startOptions (SetTags s m) = startOptions s"
  by (induction s m rule: SetTags.induct) (simp_all add: SetTag_def)

lemma operationName_SetTags: "operationName (SetTags s m) = operationName s"
  by (induction s m rule: SetTags.induct) (simp_all add: SetTag_def)

lemma tryTrace_eq:
  "tryTrace tp ctx qtype query startTime err spanOpts =
     (if suppressed tp ctx qtype then []
      else [SpanStart (spanName (cfg tp)) (spanOpts @ emitterOptions tp startTime),
            SpanFinish (emittedSpan tp ctx qtype query startTime err spanOpts)])"
  by (simp add: tryTrace_def suppressed_def emitterOptions_def emitterSetTags_def emittedSpan_def
      reportable_def configTags_def analyticsTag_def metaTags_def ambientTags_def errorTag_def
      tagOptions_def [of "[]"] tagOptions_def [of "[x]" for x] Let_def appendTags_eq
      setTagCalls_SetTags startOptions_SetTags operationName_SetTags StartSpanFromContext_def
      SetTag_def span.equality
      split: option.splits)

lemma finishedSpans_append: "finishedSpans (xs @ ys) = finishedSpans xs @ finishedSpans ys"
  by (induction xs rule: finishedSpans.induct) simp_all

lemma spanStarts_append: "spanStarts (xs @ ys) = spanStarts xs @ spanStarts ys"
  by (induction xs rule: spanStarts.induct) simp_all

lemma delegatedSQL_append: "delegatedSQL (xs @ ys) = delegatedSQL xs @ delegatedSQL ys"
  by (induction xs rule: delegatedSQL.induct) simp_all

lemma injectModes_append: "injectModes (xs @ ys) = injectModes xs @ injectModes ys"
  by (induction xs rule: injectModes.induct) simp_all

lemma warnings_append: "warnings (xs @ ys) = warnings xs @ warnings ys"
  by (induction xs rule: warnings.induct) simp_all

lemmas observation_append =
  finishedSpans_append spanStarts_append delegatedSQL_append injectModes_append warnings_append

lemma tryTrace_observed:
  "finishedSpans (tryTrace tp ctx qtype query startTime err spanOpts) =
     (if suppressed tp ctx qtype then []
      else [emittedSpan tp ctx qtype query startTime err spanOpts])"
  "delegatedSQL (tryTrace tp ctx qtype query startTime err spanOpts) = []"
  "injectModes (tryTrace tp ctx qtype query startTime err spanOpts) = []"
  "warnings (tryTrace tp ctx qtype query startTime err spanOpts) = []"
  "filter isTaskEvent (tryTrace tp ctx qtype query startTime err spanOpts) = []"
  by (simp_all add: tryTrace_eq)

lemma injectComments_observed:
  "finishedSpans (snd (injectComments rt tp ctx query mode)) = []"
  "spanStarts (snd (injectComments rt tp ctx query mode)) = []"
  "delegatedSQL (snd (injectComments rt tp ctx query mode)) = []"
  "injectModes (snd (injectComments rt tp ctx query mode)) = [mode]"
  "filter isTaskEvent (snd (injectComments rt tp ctx query mode)) = []"
  by (simp_all add: injectComments_def Let_def split_beta split: option.splits)

lemma startTraceTask_observed:
  "finishedSpans (snd (startTraceTask rt ctx name)) = []"
  "finishedSpans (snd (fst (startTraceTask rt ctx name))) = []"
  "delegatedSQL (snd (startTraceTask rt ctx name)) = []"
  "delegatedSQL (snd (fst (startTraceTask rt ctx name))) = []"
  "injectModes (snd (startTraceTask rt ctx name)) = []"
  "injectModes (snd (fst (startTraceTask rt ctx name))) = []"
  "warnings (snd (startTraceTask rt ctx name)) = []"
  "warnings (snd (fst (startTraceTask rt ctx name))) = []"
  by (simp_all add: startTraceTask_def noopTaskEnd_def)

lemma startTraceTask_enabled:
  "IsEnabled rt \<Longrightarrow> snd (startTraceTask rt ctx name) = [TaskBegin name]"
  "IsEnabled rt \<Longrightarrow> snd (fst (startTraceTask rt ctx name)) = [TaskEnd name]"
  by (simp_all add: startTraceTask_def)

text \<open>The context that carries the task holds the same span and the same tags.\<close>

lemma taskContext_same:
  "ctxSpan (taskContext rt ctx name) = ctxSpan ctx"
  "ctxSpanTags (taskContext rt ctx name) = ctxSpanTags ctx"
  by (simp_all add: taskContext_def startTraceTask_def)

lemma suppressed_taskContext:
  "suppressed tp (taskContext rt ctx name) qtype = suppressed tp ctx qtype"
  by (simp add: suppressed_def SpanFromContext_def taskContext_same)

lemma emittedSpan_taskContext:
  "emittedSpan tp (taskContext rt ctx name) qtype query startTime err spanOpts =
     emittedSpan tp ctx qtype query startTime err spanOpts"
  by (simp add: emittedSpan_def emitterSetTags_def ambientTags_def taskContext_same)

section \<open>Evaluation of concrete runs\<close>

lemmas ext_defs =
  ext_Component_def ext_SpanKind_def ext_SpanKindClient_def ext_DBSystem_def ext_SpanTypeSQL_def
  ext_EventSampleRate_def ext_ResourceName_def ext_Error_def keyDBMTraceInjected_def

lemmas model_defs =
  LooselyTracedPool_BeginTx_def tracedTx_Commit_def tracedTx_Rollback_def tracedTx_Prepare_def
  tracedTx_Exec_def tracedTx_Query_def tracedTx_QueryRow_def tracedTx_CopyFrom_def
  tryTrace_def injectComments_def startTraceTask_def noopTaskEnd_def withDBMTraceInjectedTag_def
  StartSpanFromContext_def SetTag_def SpanFromContext_def WithSpanTags_def Let_def

lemmas example_defs =
  exampleInject_def failingInject_def exampleRuntime_def failingRuntime_def exampleConfig_def
  exampleParams_def exampleContext_def emptyContext_def exampleTx_def failingTx_def
  exampleTracedTx_def examplePool_def ignoringParams_def childOnlyParams_def taggedParams_def
  taggedContext_def taggedTracedTx_def lenientParams_def failingTracedTx_def lenientTracedTx_def
  failingPool_def serviceParams_def serviceTracedTx_def panickingTx_def panickingTracedTx_def
  resourceContext_def errorKeyParams_def errorKeyTracedTx_def taggedServiceParams_def
  taggedServiceTracedTx_def

lemmas source_defs =
  strTags_def tagOptions_def configTags_def analyticsTag_def metaTags_def ambientTags_def
  reportable_def errorTag_def configKeys_def metaKeys_def ambientKeys_def specMergeOrder_def
  suppressed_def emitterOptions_def emitterSetTags_def emittedSpan_def taskContext_def
  rewrittenSQL_def injectedSpanID_def suppliedKeys_def suppliedTags_def

section \<open>The tags of an emitted span\<close>

lemma lastWrite_append:
  "map_of (rev (xs @ ys)) k =
     (case map_of (rev ys) k of None \<Rightarrow> map_of (rev xs) k | Some v \<Rightarrow> Some v)"
  by (simp add: map_add_def)

lemma lastWrite_absent: "k \<notin> set (map fst xs) \<Longrightarrow> map_of (rev xs) k = None"
  by (simp add: map_of_eq_None_iff)

lemma lastWrite_middle:
  assumes "k \<in> set (map fst ys)" "k \<notin> set (map fst zs)"
  shows "map_of (rev (xs @ ys @ zs)) k = map_of (rev ys) k"
proof -
  have z: "map_of (rev zs) k = None"
    using assms(2) by (rule lastWrite_absent)
  have "map_of (rev ys) k \<noteq> None"
    using assms(1) by (simp add: map_of_eq_None_iff)
  then obtain v where y: "map_of (rev ys) k = Some v"
    by blast
  show ?thesis
    by (simp only: lastWrite_append [of xs "ys @ zs"] lastWrite_append [of ys zs] z y option.case)
qed


lemma optWrites_tagOptions: "concat (map optWrites (tagOptions m)) = m"
  by (induction m) (auto simp add: tagOptions_def)



lemma spanWrites_emittedSpan:
  "spanWrites (emittedSpan tp ctx qtype query startTime err spanOpts) =
     concat (map optWrites spanOpts) @
     [(ext_Component, StrV ''pgx/v5''), (ext_SpanKind, StrV ext_SpanKindClient),
      (ext_DBSystem, StrV ''postgres'')] @
     configTags tp @ analyticsTag tp @
     [(''sql.query_type'', StrV (string_of qtype)),
      (ext_ResourceName, StrV (if query \<noteq> '''' then query else string_of qtype))] @
     metaTags tp @ ambientTags ctx @ errorTag tp err"
  by (simp add: spanWrites_def emittedSpan_def emitterOptions_def emitterSetTags_def
      optWrites_tagOptions)

lemma errorTagged_emittedSpan:
  "errorTagged (emittedSpan tp ctx qtype query startTime err spanOpts) = reportable tp err"
  by (auto simp add: errorTagged_def emittedSpan_def emitterSetTags_def reportable_def
      metaTags_def ambientTags_def errorTag_def strTags_def ext_Error_def ext_ResourceName_def
      list_ex_iff split: option.splits)

lemma spanIDOverride_append:
  "spanIDOverride (xs @ ys) =
     (case spanIDOverride ys of None \<Rightarrow> spanIDOverride xs | Some j \<Rightarrow> Some j)"
  by (induction xs rule: spanIDOverride.induct) (simp_all split: option.splits)

lemma spanIDOverride_tagOptions: "spanIDOverride (tagOptions m) = None"
  by (induction m) (auto simp add: tagOptions_def)

lemma spanIDOverride_emitterOptions: "spanIDOverride (emitterOptions tp startTime) = None"
  by (simp add: emitterOptions_def spanIDOverride_append spanIDOverride_tagOptions)

lemma spanIDOverride_withDBM: "spanIDOverride (withDBMTraceInjectedTag mode) = None"
  by (simp add: withDBMTraceInjectedTag_def)

lemma spanIDOverride_emittedSpan:
  "spanIDOverride (startOptions (emittedSpan tp ctx qtype query startTime err
      (withDBMTraceInjectedTag mode @ [WithSpanID i]))) = Some i"
  by (simp add: emittedSpan_def spanIDOverride_append spanIDOverride_emitterOptions
      spanIDOverride_withDBM)

lemma firstResource_emittedSpan:
  "map_of (setTagCalls (emittedSpan tp ctx qtype query startTime err spanOpts)) ext_ResourceName =
     Some (StrV (if query \<noteq> '''' then query else string_of qtype))"
  by (simp add: emittedSpan_def emitterSetTags_def ext_ResourceName_def)

lemma errorTag_other: "k \<noteq> ext_Error \<Longrightarrow> map_of (rev (errorTag tp err)) k = None"
  by (simp add: errorTag_def split: option.splits)




lemma lastWrite_skip:
  assumes "k \<notin> set (map fst xs)"
  shows "map_of (rev (xs @ ys)) k = map_of (rev ys) k"
  unfolding lastWrite_append using lastWrite_absent [OF assms]
  by (simp split: option.splits)

lemma spanTag_supplied:
  assumes "k \<notin> {ext_Component, ext_SpanKind, ext_DBSystem, ext_EventSampleRate,
                ''sql.query_type'', ext_ResourceName}"
  shows "spanTag (emittedSpan tp ctx qtype query startTime err spanOpts) k =
           (case map_of (rev (errorTag tp err)) k of
              None \<Rightarrow> map_of (rev (concat (map optWrites spanOpts) @ suppliedTags tp ctx)) k
            | Some v \<Rightarrow> Some v)"
proof -
  have a: "map_of (rev (analyticsTag tp)) k = None"
    using assms by (simp add: analyticsTag_def)
  show ?thesis
    unfolding spanTag_def spanWrites_emittedSpan suppliedTags_def
    using assms
    by (simp only: lastWrite_append a) (simp split: option.splits)
qed

lemma spanTag_resource_merged:
  "spanTag (emittedSpan tp ctx qtype query startTime err spanOpts) ext_ResourceName =
     (case map_of (rev (metaTags tp @ ambientTags ctx)) ext_ResourceName of
        None \<Rightarrow> Some (StrV (if query \<noteq> '''' then query else string_of qtype))
      | Some v \<Rightarrow> Some v)"
proof -
  have e: "map_of (rev (errorTag tp err)) ext_ResourceName = None"
    by (rule errorTag_other) (simp add: ext_Error_def ext_ResourceName_def)
  show ?thesis
    unfolding spanTag_def spanWrites_emittedSpan
    by (simp only: lastWrite_append e) (simp split: option.splits)
qed

lemma resourceRule_emittedSpan:
  "resourceRule tp ctx (if query \<noteq> '''' then query else string_of qtype)
     (emittedSpan tp ctx qtype query startTime err spanOpts)"
  unfolding resourceRule_def resourceSet_def
  by (simp only: firstResource_emittedSpan spanTag_resource_merged simp_thms)

section \<open>The spans of the facade methods\<close>

lemma BeginTx_spans:
  "finishedSpans (snd (LooselyTracedPool_BeginTx rt tp ctx txOptions)) =
     (case PoolBeginTx tp (taskContext rt ctx (string_of QueryTypeBegin)) txOptions of
        Panics \<Rightarrow> []
      | Returns (tx, err) \<Rightarrow>
          (if suppressed (poolTraceParams tp) ctx QueryTypeBegin then []
           else [emittedSpan (poolTraceParams tp) ctx QueryTypeBegin '''' (Now rt) err []]))"
  by (simp add: LooselyTracedPool_BeginTx_def Let_def split_beta observation_append
      tryTrace_observed startTraceTask_observed
      suppressed_taskContext [unfolded taskContext_def]
      emittedSpan_taskContext [unfolded taskContext_def] taskContext_def
      split: outcome.splits option.splits)

lemma Commit_spans:
  "finishedSpans (snd (tracedTx_Commit rt t ctx)) =
     (case TxCommit (Tx t) (taskContext rt ctx (string_of QueryTypeCommit)) of
        Panics \<Rightarrow> []
      | Returns err \<Rightarrow>
          (if suppressed (traceParams t) ctx QueryTypeCommit then []
           else [emittedSpan (traceParams t) ctx QueryTypeCommit '''' (Now rt) err []]))"
  by (simp add: tracedTx_Commit_def Let_def split_beta observation_append
      tryTrace_observed startTraceTask_observed
      suppressed_taskContext [unfolded taskContext_def]
      emittedSpan_taskContext [unfolded taskContext_def] taskContext_def
      split: outcome.splits)

lemma Rollback_spans:
  "finishedSpans (snd (tracedTx_Rollback rt t ctx)) =
     (case TxRollback (Tx t) (taskContext rt ctx (string_of QueryTypeRollback)) of
        Panics \<Rightarrow> []
      | Returns err \<Rightarrow>
          (if suppressed (traceParams t) ctx QueryTypeRollback then []
           else [emittedSpan (traceParams t) ctx QueryTypeRollback '''' (Now rt) err []]))"
  by (simp add: tracedTx_Rollback_def Let_def split_beta observation_append
      tryTrace_observed startTraceTask_observed
      suppressed_taskContext [unfolded taskContext_def]
      emittedSpan_taskContext [unfolded taskContext_def] taskContext_def
      split: outcome.splits)

lemma Prepare_spans:
  "finishedSpans (snd (tracedTx_Prepare rt t ctx name query)) =
     (let tp = traceParams t;
          mode = (if dbmPropagationMode (cfg tp) = DBMPropagationModeFull
                  then DBMPropagationModeService else dbmPropagationMode (cfg tp))
      in case TxPrepare (Tx t) (taskContext rt ctx (string_of QueryTypePrepare)) name
                (rewrittenSQL rt tp ctx query mode) of
           Panics \<Rightarrow> []
         | Returns (stmt, err) \<Rightarrow>
             (if suppressed tp ctx QueryTypePrepare then []
              else [emittedSpan tp ctx QueryTypePrepare query (Now rt) err
                      (withDBMTraceInjectedTag mode @
                       [WithSpanID (injectedSpanID rt tp ctx query mode)])]))"
  by (simp add: tracedTx_Prepare_def Let_def split_beta observation_append
      tryTrace_observed startTraceTask_observed injectComments_observed
      suppressed_taskContext [unfolded taskContext_def]
      emittedSpan_taskContext [unfolded taskContext_def] taskContext_def
      rewrittenSQL_def injectedSpanID_def
      split: outcome.splits)

lemma Exec_spans:
  "finishedSpans (snd (tracedTx_Exec rt t ctx query args)) =
     (let tp = traceParams t; mode = dbmPropagationMode (cfg tp)
      in case TxExec (Tx t) (taskContext rt ctx (string_of QueryTypeExec))
                (rewrittenSQL rt tp ctx query mode) args of
           Panics \<Rightarrow> []
         | Returns (r, err) \<Rightarrow>
             (if suppressed tp ctx QueryTypeExec then []
              else [emittedSpan tp ctx QueryTypeExec query (Now rt) err
                      (withDBMTraceInjectedTag mode @
                       [WithSpanID (injectedSpanID rt tp ctx query mode)])]))"
  by (simp add: tracedTx_Exec_def Let_def split_beta observation_append
      tryTrace_observed startTraceTask_observed injectComments_observed
      suppressed_taskContext [unfolded taskContext_def]
      emittedSpan_taskContext [unfolded taskContext_def] taskContext_def
      rewrittenSQL_def injectedSpanID_def
      split: outcome.splits)

lemma Query_spans:
  "finishedSpans (snd (tracedTx_Query rt t ctx query args)) =
     (let tp = traceParams t; mode = dbmPropagationMode (cfg tp)
      in case TxQuery (Tx t) (taskContext rt ctx (string_of QueryTypeQuery))
                (rewrittenSQL rt tp ctx query mode) args of
           Panics \<Rightarrow> []
         | Returns (r, err) \<Rightarrow>
             (if suppressed tp ctx QueryTypeQuery then []
              else [emittedSpan tp ctx QueryTypeQuery query (Now rt) err
                      (withDBMTraceInjectedTag mode @
                       [WithSpanID (injectedSpanID rt tp ctx query mode)])]))"
  by (simp add: tracedTx_Query_def Let_def split_beta observation_append
      tryTrace_observed startTraceTask_observed injectComments_observed
      suppressed_taskContext [unfolded taskContext_def]
      emittedSpan_taskContext [unfolded taskContext_def] taskContext_def
      rewrittenSQL_def injectedSpanID_def
      split: outcome.splits)

lemma QueryRow_spans:
  "finishedSpans (snd (tracedTx_QueryRow rt t ctx query args)) =
     (let tp = traceParams t; mode = dbmPropagationMode (cfg tp)
      in case TxQueryRow (Tx t) (taskContext rt ctx (string_of QueryTypeQuery))
                (rewrittenSQL rt tp ctx query mode) args of
           Panics \<Rightarrow> []
         | Returns r \<Rightarrow>
             (if suppressed tp ctx QueryTypeQuery then []
              else [emittedSpan tp ctx QueryTypeQuery query (Now rt) None
                      (withDBMTraceInjectedTag mode @
                       [WithSpanID (injectedSpanID rt tp ctx query mode)])]))"
  by (simp add: tracedTx_QueryRow_def Let_def split_beta observation_append
      tryTrace_observed startTraceTask_observed injectComments_observed
      suppressed_taskContext [unfolded taskContext_def]
      emittedSpan_taskContext [unfolded taskContext_def] taskContext_def
      rewrittenSQL_def injectedSpanID_def
      split: outcome.splits)

lemma CopyFrom_spans:
  "finishedSpans (snd (tracedTx_CopyFrom rt t ctx tableName columnNames rowSrc)) =
     (case TxCopyFrom (Tx t) (taskContext rt ctx (string_of QueryTypeCopyFrom)) tableName
             columnNames rowSrc of
        Panics \<Rightarrow> []
      | Returns (r, err) \<Rightarrow>
          (if suppressed (traceParams t) ctx QueryTypeCopyFrom then []
           else [emittedSpan (traceParams t) ctx QueryTypeCopyFrom
                   (''copy_from '' @ Sanitize (Tx t) tableName) (Now rt) err []]))"
  by (simp add: tracedTx_CopyFrom_def Let_def split_beta observation_append
      tryTrace_observed startTraceTask_observed
      suppressed_taskContext [unfolded taskContext_def]
      emittedSpan_taskContext [unfolded taskContext_def] taskContext_def
      split: outcome.splits)

section \<open>The results and the error tags of the facade methods\<close>






lemma BeginTx_result:
  "returnedError (fst (LooselyTracedPool_BeginTx rt pool ctx txOptions)) =
     returnedError (PoolBeginTx pool (taskContext rt ctx (string_of QueryTypeBegin)) txOptions)"
  by (simp add: LooselyTracedPool_BeginTx_def Let_def split_beta taskContext_def
      split: outcome.splits option.splits)

lemma Commit_result:
  "fst (tracedTx_Commit rt t ctx) = TxCommit (Tx t) (taskContext rt ctx (string_of QueryTypeCommit))"
  by (simp add: tracedTx_Commit_def Let_def split_beta taskContext_def split: outcome.splits)

lemma Rollback_result:
  "fst (tracedTx_Rollback rt t ctx) =
     TxRollback (Tx t) (taskContext rt ctx (string_of QueryTypeRollback))"
  by (simp add: tracedTx_Rollback_def Let_def split_beta taskContext_def split: outcome.splits)

lemma Prepare_result:
  "fst (tracedTx_Prepare rt t ctx name query) =
     TxPrepare (Tx t) (taskContext rt ctx (string_of QueryTypePrepare)) name
       (rewrittenSQL rt (traceParams t) ctx query
          (if dbmPropagationMode (cfg (traceParams t)) = DBMPropagationModeFull
           then DBMPropagationModeService else dbmPropagationMode (cfg (traceParams t))))"
  by (simp add: tracedTx_Prepare_def Let_def split_beta taskContext_def rewrittenSQL_def
      split: outcome.splits)

lemma Exec_result:
  "fst (tracedTx_Exec rt t ctx query args) =
     TxExec (Tx t) (taskContext rt ctx (string_of QueryTypeExec))
       (rewrittenSQL rt (traceParams t) ctx query (dbmPropagationMode (cfg (traceParams t)))) args"
  by (simp add: tracedTx_Exec_def Let_def split_beta taskContext_def rewrittenSQL_def
      split: outcome.splits)

lemma Query_result:
  "fst (tracedTx_Query rt t ctx query args) =
     TxQuery (Tx t) (taskContext rt ctx (string_of QueryTypeQuery))
       (rewrittenSQL rt (traceParams t) ctx query (dbmPropagationMode (cfg (traceParams t)))) args"
  by (simp add: tracedTx_Query_def Let_def split_beta taskContext_def rewrittenSQL_def
      split: outcome.splits)

lemma QueryRow_result:
  "fst (tracedTx_QueryRow rt t ctx query args) =
     TxQueryRow (Tx t) (taskContext rt ctx (string_of QueryTypeQuery))
       (rewrittenSQL rt (traceParams t) ctx query (dbmPropagationMode (cfg (traceParams t)))) args"
  by (simp add: tracedTx_QueryRow_def Let_def split_beta taskContext_def rewrittenSQL_def
      split: outcome.splits)

lemma CopyFrom_result:
  "fst (tracedTx_CopyFrom rt t ctx tableName columnNames rowSrc) =
     TxCopyFrom (Tx t) (taskContext rt ctx (string_of QueryTypeCopyFrom)) tableName columnNames rowSrc"
  by (simp add: tracedTx_CopyFrom_def Let_def split_beta taskContext_def split: outcome.splits)

section \<open>One span for every call that returns\<close>

lemma oneSpanUnless_Nil: "oneSpanUnless True P []"
  by (simp add: oneSpanUnless_def)

lemma oneSpanUnless_single: "P s \<Longrightarrow> oneSpanUnless False P [s]"
  by (simp add: oneSpanUnless_def)

lemma oneSpanUnless_tryTrace:
  assumes "P (emittedSpan tp ctx qtype query startTime err spanOpts)"
  shows "oneSpanUnless (suppressed tp ctx qtype) P
           (finishedSpans (tryTrace tp ctx qtype query startTime err spanOpts))"
  using assms by (simp add: tryTrace_observed oneSpanUnless_def)

lemma BeginTx_oneSpan:
  assumes "\<And>r err. fst (LooselyTracedPool_BeginTx rt pool ctx txOptions) = Returns (r, err) \<Longrightarrow>
     P (emittedSpan (poolTraceParams pool) ctx QueryTypeBegin '''' (Now rt) err [])"
  shows "oneSpanUnless
           (fst (LooselyTracedPool_BeginTx rt pool ctx txOptions) = Panics \<or>
            suppressed (poolTraceParams pool) ctx QueryTypeBegin) P
           (finishedSpans (snd (LooselyTracedPool_BeginTx rt pool ctx txOptions)))"
proof (cases "PoolBeginTx pool (taskContext rt ctx (string_of QueryTypeBegin)) txOptions")
  case Panics
  then have "fst (LooselyTracedPool_BeginTx rt pool ctx txOptions) = Panics"
    by (simp add: LooselyTracedPool_BeginTx_def Let_def split_beta taskContext_def)
  with Panics show ?thesis
    by (simp add: BeginTx_spans oneSpanUnless_def)
next
  case (Returns p)
  obtain tx err where p: "p = (tx, err)"
    by (cases p)
  from Returns p obtain r where r: "fst (LooselyTracedPool_BeginTx rt pool ctx txOptions) =
      Returns (r, err)"
    by (cases err)
      (simp_all add: LooselyTracedPool_BeginTx_def Let_def split_beta taskContext_def)
  from assms [OF r] r Returns p show ?thesis
    by (simp add: BeginTx_spans oneSpanUnless_def)
qed

lemma Commit_oneSpan:
  assumes "\<And>err. fst (tracedTx_Commit rt t ctx) = Returns err \<Longrightarrow>
     P (emittedSpan (traceParams t) ctx QueryTypeCommit '''' (Now rt) err [])"
  shows "oneSpanUnless
           (fst (tracedTx_Commit rt t ctx) = Panics \<or>
            suppressed (traceParams t) ctx QueryTypeCommit) P
           (finishedSpans (snd (tracedTx_Commit rt t ctx)))"
proof (cases "TxCommit (Tx t) (taskContext rt ctx (string_of QueryTypeCommit))")
  case Panics
  then show ?thesis
    by (simp add: Commit_result Commit_spans oneSpanUnless_def)
next
  case (Returns err)
  with assms [of err] show ?thesis
    by (simp add: Commit_result Commit_spans oneSpanUnless_def)
qed

lemma Rollback_oneSpan:
  assumes "\<And>err. fst (tracedTx_Rollback rt t ctx) = Returns err \<Longrightarrow>
     P (emittedSpan (traceParams t) ctx QueryTypeRollback '''' (Now rt) err [])"
  shows "oneSpanUnless
           (fst (tracedTx_Rollback rt t ctx) = Panics \<or>
            suppressed (traceParams t) ctx QueryTypeRollback) P
           (finishedSpans (snd (tracedTx_Rollback rt t ctx)))"
proof (cases "TxRollback (Tx t) (taskContext rt ctx (string_of QueryTypeRollback))")
  case Panics
  then show ?thesis
    by (simp add: Rollback_result Rollback_spans oneSpanUnless_def)
next
  case (Returns err)
  with assms [of err] show ?thesis
    by (simp add: Rollback_result Rollback_spans oneSpanUnless_def)
qed

lemma Prepare_oneSpan:
  assumes "\<And>r err. fst (tracedTx_Prepare rt t ctx name query) = Returns (r, err) \<Longrightarrow>
     P (emittedSpan (traceParams t) ctx QueryTypePrepare query (Now rt) err
          [WithSpanID (injectedSpanID rt (traceParams t) ctx query
             (if dbmPropagationMode (cfg (traceParams t)) = DBMPropagationModeFull
              then DBMPropagationModeService else dbmPropagationMode (cfg (traceParams t))))])"
  shows "oneSpanUnless
           (fst (tracedTx_Prepare rt t ctx name query) = Panics \<or>
            suppressed (traceParams t) ctx QueryTypePrepare) P
           (finishedSpans (snd (tracedTx_Prepare rt t ctx name query)))"
proof (cases "TxPrepare (Tx t) (taskContext rt ctx (string_of QueryTypePrepare)) name
       (rewrittenSQL rt (traceParams t) ctx query
          (if dbmPropagationMode (cfg (traceParams t)) = DBMPropagationModeFull
           then DBMPropagationModeService else dbmPropagationMode (cfg (traceParams t))))")
  case Panics
  then show ?thesis
    by (simp add: Prepare_result Prepare_spans Let_def oneSpanUnless_def)
next
  case (Returns p)
  obtain r err where p: "p = (r, err)"
    by (cases p)
  have m: "withDBMTraceInjectedTag
      (if dbmPropagationMode (cfg (traceParams t)) = DBMPropagationModeFull
       then DBMPropagationModeService else dbmPropagationMode (cfg (traceParams t))) = []"
    by (simp add: withDBMTraceInjectedTag_def)
  from assms [of r err] Returns p show ?thesis
    by (simp add: Prepare_result Prepare_spans Let_def oneSpanUnless_def m cong: if_cong)
qed

lemma Exec_oneSpan:
  assumes "\<And>r err. fst (tracedTx_Exec rt t ctx query args) = Returns (r, err) \<Longrightarrow>
     P (emittedSpan (traceParams t) ctx QueryTypeExec query (Now rt) err
          (withDBMTraceInjectedTag (dbmPropagationMode (cfg (traceParams t))) @
           [WithSpanID (injectedSpanID rt (traceParams t) ctx query
              (dbmPropagationMode (cfg (traceParams t))))]))"
  shows "oneSpanUnless
           (fst (tracedTx_Exec rt t ctx query args) = Panics \<or>
            suppressed (traceParams t) ctx QueryTypeExec) P
           (finishedSpans (snd (tracedTx_Exec rt t ctx query args)))"
proof (cases "TxExec (Tx t) (taskContext rt ctx (string_of QueryTypeExec))
       (rewrittenSQL rt (traceParams t) ctx query (dbmPropagationMode (cfg (traceParams t)))) args")
  case Panics
  then show ?thesis
    by (simp add: Exec_result Exec_spans Let_def oneSpanUnless_def)
next
  case (Returns p)
  obtain r err where p: "p = (r, err)"
    by (cases p)
  from assms [of r err] Returns p show ?thesis
    by (simp add: Exec_result Exec_spans Let_def oneSpanUnless_def)
qed

lemma Query_oneSpan:
  assumes "\<And>r err. fst (tracedTx_Query rt t ctx query args) = Returns (r, err) \<Longrightarrow>
     P (emittedSpan (traceParams t) ctx QueryTypeQuery query (Now rt) err
          (withDBMTraceInjectedTag (dbmPropagationMode (cfg (traceParams t))) @
           [WithSpanID (injectedSpanID rt (traceParams t) ctx query
              (dbmPropagationMode (cfg (traceParams t))))]))"
  shows "oneSpanUnless
           (fst (tracedTx_Query rt t ctx query args) = Panics \<or>
            suppressed (traceParams t) ctx QueryTypeQuery) P
           (finishedSpans (snd (tracedTx_Query rt t ctx query args)))"
proof (cases "TxQuery (Tx t) (taskContext rt ctx (string_of QueryTypeQuery))
       (rewrittenSQL rt (traceParams t) ctx query (dbmPropagationMode (cfg (traceParams t)))) args")
  case Panics
  then show ?thesis
    by (simp add: Query_result Query_spans Let_def oneSpanUnless_def)
next
  case (Returns p)
  obtain r err where p: "p = (r, err)"
    by (cases p)
  from assms [of r err] Returns p show ?thesis
    by (simp add: Query_result Query_spans Let_def oneSpanUnless_def)
qed

lemma QueryRow_oneSpan:
  assumes "P (emittedSpan (traceParams t) ctx QueryTypeQuery query (Now rt) None
          (withDBMTraceInjectedTag (dbmPropagationMode (cfg (traceParams t))) @
           [WithSpanID (injectedSpanID rt (traceParams t) ctx query
              (dbmPropagationMode (cfg (traceParams t))))]))"
  shows "oneSpanUnless
           (fst (tracedTx_QueryRow rt t ctx query args) = Panics \<or>
            suppressed (traceParams t) ctx QueryTypeQuery) P
           (finishedSpans (snd (tracedTx_QueryRow rt t ctx query args)))"
proof (cases "TxQueryRow (Tx t) (taskContext rt ctx (string_of QueryTypeQuery))
       (rewrittenSQL rt (traceParams t) ctx query (dbmPropagationMode (cfg (traceParams t)))) args")
  case Panics
  then show ?thesis
    by (simp add: QueryRow_result QueryRow_spans Let_def oneSpanUnless_def)
next
  case (Returns r)
  with assms show ?thesis
    by (simp add: QueryRow_result QueryRow_spans Let_def oneSpanUnless_def)
qed

lemma CopyFrom_oneSpan:
  assumes "\<And>r err. fst (tracedTx_CopyFrom rt t ctx tableName columnNames rowSrc) =
       Returns (r, err) \<Longrightarrow>
     P (emittedSpan (traceParams t) ctx QueryTypeCopyFrom
          (''copy_from '' @ Sanitize (Tx t) tableName) (Now rt) err [])"
  shows "oneSpanUnless
           (fst (tracedTx_CopyFrom rt t ctx tableName columnNames rowSrc) = Panics \<or>
            suppressed (traceParams t) ctx QueryTypeCopyFrom) P
           (finishedSpans (snd (tracedTx_CopyFrom rt t ctx tableName columnNames rowSrc)))"
proof (cases "TxCopyFrom (Tx t) (taskContext rt ctx (string_of QueryTypeCopyFrom)) tableName
       columnNames rowSrc")
  case Panics
  then show ?thesis
    by (simp add: CopyFrom_result CopyFrom_spans oneSpanUnless_def)
next
  case (Returns p)
  obtain r err where p: "p = (r, err)"
    by (cases p)
  from assms [of r err] Returns p show ?thesis
    by (simp add: CopyFrom_result CopyFrom_spans oneSpanUnless_def)
qed

section \<open>The order in which the tag sources are merged\<close>

text \<open>
  C1 (as amended). For every span that the emitter finishes, the tag entries are merged so
  that a later entry overrides an earlier one on key collision, in exactly this order: the
  caller-supplied extra options first (the trace-injected marker; the span identifier is not
  a tag), then the component, span-kind and database-system tags, then the static config
  tags, then the analytics sample-rate tag (present only when the configured rate is not
  NaN), then the query type and the resource name, then the per-facade metadata, then the
  ambient context tags, and last the error tag when the error is reportable. Hence an ambient
  tag wins over every other source but the error tag, per-facade metadata wins over the
  static config tags and the caller-supplied options, and a static config tag wins over a
  caller-supplied option with the same key.
\<close>

theorem tryTrace_merge_order:
  assumes "s \<in> set (finishedSpans (tryTrace tp ctx qtype query startTime err spanOpts))"
  shows "spanWrites s =
           concat (map optWrites spanOpts) @
           [(ext_Component, StrV ''pgx/v5''), (ext_SpanKind, StrV ext_SpanKindClient),
            (ext_DBSystem, StrV ''postgres'')] @
           configTags tp @ analyticsTag tp @
           [(''sql.query_type'', StrV (string_of qtype)),
            (ext_ResourceName, StrV (if query \<noteq> '''' then query else string_of qtype))] @
           metaTags tp @ ambientTags ctx @ errorTag tp err \<and>
         (k \<in> set (map fst (ambientTags ctx)) \<and> k \<notin> set (map fst (errorTag tp err)) \<longrightarrow>
            spanTag s k = map_of (rev (ambientTags ctx)) k) \<and>
         (k \<in> set (map fst (metaTags tp)) \<and>
          k \<notin> set (map fst (ambientTags ctx @ errorTag tp err)) \<longrightarrow>
            spanTag s k = map_of (rev (metaTags tp)) k) \<and>
         (k \<in> set (map fst (configTags tp)) \<and>
          k \<notin> set (map fst (analyticsTag tp @
                 [(''sql.query_type'', StrV (string_of qtype)),
                  (ext_ResourceName, StrV (if query \<noteq> '''' then query else string_of qtype))] @
                 metaTags tp @ ambientTags ctx @ errorTag tp err)) \<longrightarrow>
            spanTag s k = map_of (rev (configTags tp)) k)"
proof -
  let ?pre = "concat (map optWrites spanOpts) @
           [(ext_Component, StrV ''pgx/v5''), (ext_SpanKind, StrV ext_SpanKindClient),
            (ext_DBSystem, StrV ''postgres'')]"
  let ?mid = "analyticsTag tp @ [(''sql.query_type'', StrV (string_of qtype)),
            (ext_ResourceName, StrV (if query \<noteq> '''' then query else string_of qtype))]"
  from assms have s: "s = emittedSpan tp ctx qtype query startTime err spanOpts"
    by (simp add: tryTrace_observed split: if_splits)
  have w: "spanWrites s = ?pre @ configTags tp @ ?mid @ metaTags tp @ ambientTags ctx @ errorTag tp err"
    by (simp add: s spanWrites_emittedSpan)
  have a: "spanTag s k = map_of (rev (ambientTags ctx)) k"
    if "k \<in> set (map fst (ambientTags ctx))" "k \<notin> set (map fst (errorTag tp err))"
  proof -
    have "spanWrites s = (?pre @ configTags tp @ ?mid @ metaTags tp) @ ambientTags ctx @ errorTag tp err"
      by (simp add: w)
    then show ?thesis
      unfolding spanTag_def using that by (simp only: lastWrite_middle simp_thms)
  qed
  have m: "spanTag s k = map_of (rev (metaTags tp)) k"
    if "k \<in> set (map fst (metaTags tp))" "k \<notin> set (map fst (ambientTags ctx @ errorTag tp err))"
  proof -
    have "spanWrites s = (?pre @ configTags tp @ ?mid) @ metaTags tp @ (ambientTags ctx @ errorTag tp err)"
      by (simp add: w)
    then show ?thesis
      unfolding spanTag_def using that by (simp only: lastWrite_middle simp_thms)
  qed
  have c: "spanTag s k = map_of (rev (configTags tp)) k"
    if "k \<in> set (map fst (configTags tp))"
       "k \<notin> set (map fst (?mid @ metaTags tp @ ambientTags ctx @ errorTag tp err))"
  proof -
    have "spanWrites s = ?pre @ configTags tp @ (?mid @ metaTags tp @ ambientTags ctx @ errorTag tp err)"
      by (simp add: w)
    then show ?thesis
      unfolding spanTag_def using that by (simp only: lastWrite_middle simp_thms)
  qed
  show ?thesis
    using w a m c by simp
qed

theorem tryTrace_merge_order_witness:
  "emittedSpan taggedParams taggedContext QueryTypeExec ''SELECT 1'' 100 None
       [Tag keyDBMTraceInjected (BoolV True), WithSpanID 7]
     \<in> set (finishedSpans (tryTrace taggedParams taggedContext QueryTypeExec ''SELECT 1'' 100 None
           [Tag keyDBMTraceInjected (BoolV True), WithSpanID 7])) \<and>
   spanTag (emittedSpan taggedParams taggedContext QueryTypeExec ''SELECT 1'' 100 None
       [Tag keyDBMTraceInjected (BoolV True), WithSpanID 7]) ''env'' = Some (StrV ''request'') \<and>
   spanTag (emittedSpan taggedParams taggedContext QueryTypeExec ''SELECT 1'' 100 None
       [Tag keyDBMTraceInjected (BoolV True), WithSpanID 7]) ''team'' = Some (StrV ''facade'') \<and>
   spanTag (emittedSpan taggedParams taggedContext QueryTypeExec ''SELECT 1'' 100 None
       [Tag keyDBMTraceInjected (BoolV True), WithSpanID 7]) keyDBMTraceInjected =
     Some (StrV ''static'')"
proof -
  let ?s = "emittedSpan taggedParams taggedContext QueryTypeExec ''SELECT 1'' 100 None
       [Tag keyDBMTraceInjected (BoolV True), WithSpanID 7]"
  have e: "?s \<in> set (finishedSpans (tryTrace taggedParams taggedContext QueryTypeExec
       ''SELECT 1'' 100 None [Tag keyDBMTraceInjected (BoolV True), WithSpanID 7]))"
    by (simp add: tryTrace_observed suppressed_def taggedParams_def exampleConfig_def)
  show ?thesis
    using e tryTrace_merge_order [OF e, of "''env''"] tryTrace_merge_order [OF e, of "''team''"]
      tryTrace_merge_order [OF e, of keyDBMTraceInjected]
    by (simp add: configTags_def analyticsTag_def metaTags_def ambientTags_def errorTag_def
        strTags_def taggedParams_def taggedContext_def exampleContext_def exampleConfig_def
        WithSpanTags_def ext_defs)
qed

text \<open>
  C1 as stated puts the caller-supplied options after the static config tags. With a static
  config tag stored under the key of the trace-injected marker, \<^verbatim>\<open>Exec\<close> in full propagation
  mode finishes a span whose marker tag is the static value, where the stated order gives
  the marker \<open>true\<close>.
\<close>

theorem merge_order_counterexample:
  "startOptions (hd (finishedSpans (snd (tracedTx_Exec exampleRuntime taggedTracedTx taggedContext
       ''SELECT 1'' [])))) =
     [Tag ''_dd.dbm_trace_injected'' (BoolV True), WithSpanID 7,
      ServiceName ''postgres.db'', SpanType ''sql'', StartTime 100,
      Tag ''component'' (StrV ''pgx/v5''), Tag ''span.kind'' (StrV ''client''),
      Tag ''db.system'' (StrV ''postgres''),
      Tag ''env'' (StrV ''static''), Tag ''team'' (StrV ''static''),
      Tag ''_dd.dbm_trace_injected'' (StrV ''static''),
      Tag ''_dd1.sr.eausr'' (FloatV (Number (1 / 2)))] \<and>
   spanTag (hd (finishedSpans (snd (tracedTx_Exec exampleRuntime taggedTracedTx taggedContext
       ''SELECT 1'' [])))) keyDBMTraceInjected = Some (StrV ''static'') \<and>
   map_of (rev (specMergeOrder taggedParams taggedContext
       (withDBMTraceInjectedTag DBMPropagationModeFull @ [WithSpanID 7]))) keyDBMTraceInjected =
     Some (BoolV True)"
  by (simp add: model_defs example_defs source_defs ext_defs spanTag_def spanWrites_def)

section \<open>The diagnostic task\<close>

lemma BeginTx_task:
  "IsEnabled rt \<Longrightarrow>
     taskClosedLast ''Begin'' (snd (LooselyTracedPool_BeginTx rt tp ctx txOptions))"
  by (simp add: LooselyTracedPool_BeginTx_def Let_def split_beta startTraceTask_enabled
      tryTrace_observed taskClosedLast_def split: outcome.splits option.splits)

lemma Commit_task:
  "IsEnabled rt \<Longrightarrow> taskClosedLast ''Commit'' (snd (tracedTx_Commit rt t ctx))"
  by (simp add: tracedTx_Commit_def Let_def split_beta startTraceTask_enabled
      tryTrace_observed taskClosedLast_def split: outcome.splits)

lemma Rollback_task:
  "IsEnabled rt \<Longrightarrow> taskClosedLast ''Rollback'' (snd (tracedTx_Rollback rt t ctx))"
  by (simp add: tracedTx_Rollback_def Let_def split_beta startTraceTask_enabled
      tryTrace_observed taskClosedLast_def split: outcome.splits)

lemma Prepare_task:
  "IsEnabled rt \<Longrightarrow> taskClosedLast ''Prepare'' (snd (tracedTx_Prepare rt t ctx name query))"
  by (simp add: tracedTx_Prepare_def Let_def split_beta startTraceTask_enabled
      tryTrace_observed injectComments_observed taskClosedLast_def split: outcome.splits)

lemma Exec_task:
  "IsEnabled rt \<Longrightarrow> taskClosedLast ''Exec'' (snd (tracedTx_Exec rt t ctx query args))"
  by (simp add: tracedTx_Exec_def Let_def split_beta startTraceTask_enabled
      tryTrace_observed injectComments_observed taskClosedLast_def split: outcome.splits)

lemma Query_task:
  "IsEnabled rt \<Longrightarrow> taskClosedLast ''Query'' (snd (tracedTx_Query rt t ctx query args))"
  by (simp add: tracedTx_Query_def Let_def split_beta startTraceTask_enabled
      tryTrace_observed injectComments_observed taskClosedLast_def split: outcome.splits)

lemma QueryRow_task:
  "IsEnabled rt \<Longrightarrow> taskClosedLast ''Query'' (snd (tracedTx_QueryRow rt t ctx query args))"
  by (simp add: tracedTx_QueryRow_def Let_def split_beta startTraceTask_enabled
      tryTrace_observed injectComments_observed taskClosedLast_def split: outcome.splits)

lemma CopyFrom_task:
  "IsEnabled rt \<Longrightarrow>
     taskClosedLast ''CopyFrom'' (snd (tracedTx_CopyFrom rt t ctx tableName columnNames rowSrc))"
  by (simp add: tracedTx_CopyFrom_def Let_def split_beta startTraceTask_enabled
      tryTrace_observed taskClosedLast_def split: outcome.splits)

text \<open>
  C2 (as amended). For every traced operation that opens a diagnostic task (Begin, Prepare,
  Exec, Query, QueryRow, Commit, Rollback, CopyFrom), the task is ended exactly once on every
  exit path of the method, whether the delegated call returns or panics, and the end of the
  task is the last effect of the method: it happens after the span emission for that same
  operation.
\<close>

theorem task_ends_after_emission:
  assumes "IsEnabled rt"
  shows "taskClosedLast ''Begin'' (snd (LooselyTracedPool_BeginTx rt pool ctx txOptions)) \<and>
         taskClosedLast ''Prepare'' (snd (tracedTx_Prepare rt t ctx name query)) \<and>
         taskClosedLast ''Exec'' (snd (tracedTx_Exec rt t ctx query args)) \<and>
         taskClosedLast ''Query'' (snd (tracedTx_Query rt t ctx query args)) \<and>
         taskClosedLast ''Query'' (snd (tracedTx_QueryRow rt t ctx query args)) \<and>
         taskClosedLast ''Commit'' (snd (tracedTx_Commit rt t ctx)) \<and>
         taskClosedLast ''Rollback'' (snd (tracedTx_Rollback rt t ctx)) \<and>
         taskClosedLast ''CopyFrom'' (snd (tracedTx_CopyFrom rt t ctx tableName columnNames rowSrc))"
  using assms
  by (simp only: BeginTx_task Commit_task Rollback_task Prepare_task Exec_task Query_task
      QueryRow_task CopyFrom_task simp_thms)

theorem task_ends_after_emission_witness:
  "IsEnabled exampleRuntime \<and>
   taskClosedLast ''Begin'' (snd (LooselyTracedPool_BeginTx exampleRuntime examplePool exampleContext ())) \<and>
   taskClosedLast ''Prepare'' (snd (tracedTx_Prepare exampleRuntime exampleTracedTx exampleContext ''stmt'' ''SELECT 1'')) \<and>
   taskClosedLast ''Exec'' (snd (tracedTx_Exec exampleRuntime exampleTracedTx exampleContext ''SELECT 1'' [])) \<and>
   taskClosedLast ''Query'' (snd (tracedTx_Query exampleRuntime exampleTracedTx exampleContext ''SELECT 1'' [])) \<and>
   taskClosedLast ''Query'' (snd (tracedTx_QueryRow exampleRuntime exampleTracedTx exampleContext ''SELECT 1'' [])) \<and>
   taskClosedLast ''Commit'' (snd (tracedTx_Commit exampleRuntime exampleTracedTx exampleContext)) \<and>
   taskClosedLast ''Rollback'' (snd (tracedTx_Rollback exampleRuntime exampleTracedTx exampleContext)) \<and>
   taskClosedLast ''CopyFrom'' (snd (tracedTx_CopyFrom exampleRuntime exampleTracedTx exampleContext ''t'' [''a''] ())) \<and>
   fst (tracedTx_Exec exampleRuntime panickingTracedTx exampleContext ''SELECT 1'' []) = Panics \<and>
   taskClosedLast ''Exec'' (snd (tracedTx_Exec exampleRuntime panickingTracedTx exampleContext ''SELECT 1'' []))"
proof -
  have e: "IsEnabled exampleRuntime"
    by (simp add: exampleRuntime_def)
  show ?thesis
    using e task_ends_after_emission [OF e, where pool = examplePool and ctx = exampleContext
        and txOptions = "()" and t = exampleTracedTx and name = "''stmt''"
        and query = "''SELECT 1''" and args = "[]" and tableName = "''t''"
        and columnNames = "[''a'']" and rowSrc = "()"]
      task_ends_after_emission [OF e, where pool = examplePool and ctx = exampleContext
        and txOptions = "()" and t = panickingTracedTx and name = "''stmt''"
        and query = "''SELECT 1''" and args = "[]" and tableName = "''t''"
        and columnNames = "[''a'']" and rowSrc = "()"]
    by (simp add: Exec_result panickingTracedTx_def panickingTx_def)
qed

text \<open>
  C2 as stated has the task end no later than the span emission. The run of \<^verbatim>\<open>Exec\<close> with
  execution tracing switched on starts and finishes the span before the deferred end of the
  task.
\<close>

theorem task_end_order_counterexample:
  "snd (tracedTx_Exec exampleRuntime exampleTracedTx exampleContext ''SELECT 1'' []) =
     [InjectCall \<lparr>Query = ''SELECT 1'', Mode = DBMPropagationModeFull,
                  DBServiceName = ''postgres.db'', SpanID = 0\<rparr> (Some (1, 2)),
      TaskBegin ''Exec'',
      Delegated CallExec
        \<lparr>ctxSpan = Some (1, 2), ctxSpanTags = None, ctxTask = Some ''Exec'',
         ctxExecutionTraced = True\<rparr>
        ''/*dddbs=db*/ SELECT 1'',
      SpanStart ''pgx.query''
        [Tag ''_dd.dbm_trace_injected'' (BoolV True), WithSpanID 7,
         ServiceName ''postgres.db'', SpanType ''sql'', StartTime 100,
         Tag ''component'' (StrV ''pgx/v5''), Tag ''span.kind'' (StrV ''client''),
         Tag ''db.system'' (StrV ''postgres'')],
      SpanFinish
        \<lparr>operationName = ''pgx.query'',
         startOptions =
           [Tag ''_dd.dbm_trace_injected'' (BoolV True), WithSpanID 7,
            ServiceName ''postgres.db'', SpanType ''sql'', StartTime 100,
            Tag ''component'' (StrV ''pgx/v5''), Tag ''span.kind'' (StrV ''client''),
            Tag ''db.system'' (StrV ''postgres'')],
         setTagCalls =
           [(''sql.query_type'', StrV ''Exec''), (''resource.name'', StrV ''SELECT 1'')]\<rparr>,
      TaskEnd ''Exec''] \<and>
   \<not> taskEndNoLaterThanEmission
       (snd (tracedTx_Exec exampleRuntime exampleTracedTx exampleContext ''SELECT 1'' []))"
  by (simp add: model_defs example_defs ext_defs)

section \<open>Original and rewritten SQL\<close>

lemma injectComments_carrier:
  "fst (injectComments rt tp ctx query mode) =
     (Query (fst (Inject rt \<lparr>Query = query, Mode = mode, DBServiceName = serviceName (cfg tp),
                            SpanID = 0\<rparr> (SpanFromContext ctx))),
      SpanID (fst (Inject rt \<lparr>Query = query, Mode = mode, DBServiceName = serviceName (cfg tp),
                             SpanID = 0\<rparr> (SpanFromContext ctx))))"
  by (cases "SpanFromContext ctx") (simp_all add: injectComments_def Let_def split_beta)

lemma Prepare_delegated:
  "delegatedSQL (snd (tracedTx_Prepare rt t ctx name query)) =
     [rewrittenSQL rt (traceParams t) ctx query
        (if dbmPropagationMode (cfg (traceParams t)) = DBMPropagationModeFull
         then DBMPropagationModeService else dbmPropagationMode (cfg (traceParams t)))]"
  by (simp add: tracedTx_Prepare_def Let_def split_beta observation_append tryTrace_observed
      startTraceTask_observed injectComments_observed rewrittenSQL_def split: outcome.splits)

lemma Exec_delegated:
  "delegatedSQL (snd (tracedTx_Exec rt t ctx query args)) =
     [rewrittenSQL rt (traceParams t) ctx query (dbmPropagationMode (cfg (traceParams t)))]"
  by (simp add: tracedTx_Exec_def Let_def split_beta observation_append tryTrace_observed
      startTraceTask_observed injectComments_observed rewrittenSQL_def split: outcome.splits)

lemma Query_delegated:
  "delegatedSQL (snd (tracedTx_Query rt t ctx query args)) =
     [rewrittenSQL rt (traceParams t) ctx query (dbmPropagationMode (cfg (traceParams t)))]"
  by (simp add: tracedTx_Query_def Let_def split_beta observation_append tryTrace_observed
      startTraceTask_observed injectComments_observed rewrittenSQL_def split: outcome.splits)

lemma QueryRow_delegated:
  "delegatedSQL (snd (tracedTx_QueryRow rt t ctx query args)) =
     [rewrittenSQL rt (traceParams t) ctx query (dbmPropagationMode (cfg (traceParams t)))]"
  by (simp add: tracedTx_QueryRow_def Let_def split_beta observation_append tryTrace_observed
      startTraceTask_observed injectComments_observed rewrittenSQL_def split: outcome.splits)

lemma resourceRule_kind:
  "resourceRule tp ctx (string_of qtype) (emittedSpan tp ctx qtype '''' startTime err spanOpts)"
  using resourceRule_emittedSpan [of tp ctx "''''" qtype startTime err spanOpts] by simp

text \<open>
  C3 (as amended). For every SQL-bearing operation (Prepare, Exec, Query, QueryRow) and every
  propagation mode, the wrapped transaction method is invoked with the rewritten SQL, the one
  the comment injector returned, while the span emitter is invoked with the original text:
  every call that returns and is not suppressed finishes exactly one span, on which the
  emitter sets the resource name to the original text when it is non-empty, and to the name
  of the operation kind when the text is empty, as it does for Begin, Commit and Rollback.
  That value is the resource name of the span unless the per-facade metadata or the ambient
  context tags store a value under the resource key; then the last such value is.
\<close>

theorem resource_set_from_original_sql:
  "(let tp = traceParams t;
        mode = dbmPropagationMode (cfg tp);
        prepareMode = (if mode = DBMPropagationModeFull then DBMPropagationModeService else mode)
    in delegatedSQL (snd (tracedTx_Prepare rt t ctx name query)) =
         [rewrittenSQL rt tp ctx query prepareMode] \<and>
       oneSpanUnless
         (fst (tracedTx_Prepare rt t ctx name query) = Panics \<or>
          suppressed tp ctx QueryTypePrepare)
         (resourceRule tp ctx (if query \<noteq> '''' then query else string_of QueryTypePrepare))
         (finishedSpans (snd (tracedTx_Prepare rt t ctx name query))) \<and>
       delegatedSQL (snd (tracedTx_Exec rt t ctx query args)) = [rewrittenSQL rt tp ctx query mode] \<and>
       oneSpanUnless
         (fst (tracedTx_Exec rt t ctx query args) = Panics \<or> suppressed tp ctx QueryTypeExec)
         (resourceRule tp ctx (if query \<noteq> '''' then query else string_of QueryTypeExec))
         (finishedSpans (snd (tracedTx_Exec rt t ctx query args))) \<and>
       delegatedSQL (snd (tracedTx_Query rt t ctx query args)) = [rewrittenSQL rt tp ctx query mode] \<and>
       oneSpanUnless
         (fst (tracedTx_Query rt t ctx query args) = Panics \<or> suppressed tp ctx QueryTypeQuery)
         (resourceRule tp ctx (if query \<noteq> '''' then query else string_of QueryTypeQuery))
         (finishedSpans (snd (tracedTx_Query rt t ctx query args))) \<and>
       delegatedSQL (snd (tracedTx_QueryRow rt t ctx query args)) =
         [rewrittenSQL rt tp ctx query mode] \<and>
       oneSpanUnless
         (fst (tracedTx_QueryRow rt t ctx query args) = Panics \<or>
          suppressed tp ctx QueryTypeQuery)
         (resourceRule tp ctx (if query \<noteq> '''' then query else string_of QueryTypeQuery))
         (finishedSpans (snd (tracedTx_QueryRow rt t ctx query args))) \<and>
       oneSpanUnless
         (fst (LooselyTracedPool_BeginTx rt pool ctx txOptions) = Panics \<or>
          suppressed (poolTraceParams pool) ctx QueryTypeBegin)
         (resourceRule (poolTraceParams pool) ctx (string_of QueryTypeBegin))
         (finishedSpans (snd (LooselyTracedPool_BeginTx rt pool ctx txOptions))) \<and>
       oneSpanUnless
         (fst (tracedTx_Commit rt t ctx) = Panics \<or> suppressed tp ctx QueryTypeCommit)
         (resourceRule tp ctx (string_of QueryTypeCommit))
         (finishedSpans (snd (tracedTx_Commit rt t ctx))) \<and>
       oneSpanUnless
         (fst (tracedTx_Rollback rt t ctx) = Panics \<or> suppressed tp ctx QueryTypeRollback)
         (resourceRule tp ctx (string_of QueryTypeRollback))
         (finishedSpans (snd (tracedTx_Rollback rt t ctx))) \<and>
       rewrittenSQL rt tp ctx query mode =
         Query (fst (Inject rt \<lparr>Query = query, Mode = mode, DBServiceName = serviceName (cfg tp),
                                SpanID = 0\<rparr> (SpanFromContext ctx))))"
  unfolding Let_def
  by (intro conjI)
    (rule Prepare_delegated Exec_delegated Query_delegated QueryRow_delegated
     | (rule Prepare_oneSpan Exec_oneSpan Query_oneSpan QueryRow_oneSpan,
        rule resourceRule_emittedSpan)
     | (rule BeginTx_oneSpan Commit_oneSpan Rollback_oneSpan, rule resourceRule_kind)
     | simp add: rewrittenSQL_def injectComments_carrier)+

theorem resource_set_from_original_sql_witness:
  "delegatedSQL (snd (tracedTx_Exec exampleRuntime exampleTracedTx exampleContext ''SELECT 1'' [])) =
     [''/*dddbs=db*/ SELECT 1''] \<and>
   length (finishedSpans (snd (tracedTx_Exec exampleRuntime exampleTracedTx exampleContext
     ''SELECT 1'' []))) = 1 \<and>
   spanTag (hd (finishedSpans (snd (tracedTx_Exec exampleRuntime exampleTracedTx exampleContext
     ''SELECT 1'' [])))) ext_ResourceName = Some (StrV ''SELECT 1'') \<and>
   spanTag (hd (finishedSpans (snd (tracedTx_Prepare exampleRuntime exampleTracedTx exampleContext
     ''stmt'' ''SELECT 1'')))) ext_ResourceName = Some (StrV ''SELECT 1'') \<and>
   spanTag (hd (finishedSpans (snd (tracedTx_Query exampleRuntime exampleTracedTx exampleContext
     ''SELECT 1'' [])))) ext_ResourceName = Some (StrV ''SELECT 1'') \<and>
   spanTag (hd (finishedSpans (snd (tracedTx_QueryRow exampleRuntime exampleTracedTx exampleContext
     ''SELECT 1'' [])))) ext_ResourceName = Some (StrV ''SELECT 1'') \<and>
   spanTag (hd (finishedSpans (snd (LooselyTracedPool_BeginTx exampleRuntime examplePool
     exampleContext ())))) ext_ResourceName = Some (StrV ''Begin'') \<and>
   spanTag (hd (finishedSpans (snd (tracedTx_Commit exampleRuntime exampleTracedTx
     exampleContext)))) ext_ResourceName = Some (StrV ''Commit'') \<and>
   spanTag (hd (finishedSpans (snd (tracedTx_Rollback exampleRuntime exampleTracedTx
     exampleContext)))) ext_ResourceName = Some (StrV ''Rollback'') \<and>
   resourceSet (hd (finishedSpans (snd (tracedTx_Exec exampleRuntime exampleTracedTx
     resourceContext ''SELECT 1'' [])))) = Some (StrV ''SELECT 1'') \<and>
   spanTag (hd (finishedSpans (snd (tracedTx_Exec exampleRuntime exampleTracedTx
     resourceContext ''SELECT 1'' [])))) ext_ResourceName = Some (StrV ''mine'')"
  using resource_set_from_original_sql [where rt = exampleRuntime and t = exampleTracedTx
      and ctx = exampleContext and name = "''stmt''" and query = "''SELECT 1''" and args = "[]"
      and pool = examplePool and txOptions = "()"]
    resource_set_from_original_sql [where rt = exampleRuntime and t = exampleTracedTx
      and ctx = resourceContext and name = "''stmt''" and query = "''SELECT 1''" and args = "[]"
      and pool = examplePool and txOptions = "()"]
  by (simp add: model_defs example_defs resourceRule_def oneSpanUnless_def
      suppressed_def metaTags_def ambientTags_def strTags_def rewrittenSQL_def ext_defs)

text \<open>
  C3 as stated makes the resource name of the span the original text on every input. With
  a context tag stored under the resource key, the span of \<^verbatim>\<open>Exec\<close> ends with that tag as
  its resource name: the emitter copies the context tags to the span after the resource.
\<close>

theorem resource_override_counterexample:
  "length (finishedSpans (snd (tracedTx_Exec exampleRuntime exampleTracedTx resourceContext
     ''SELECT 1'' []))) = 1 \<and>
   setTagCalls (hd (finishedSpans (snd (tracedTx_Exec exampleRuntime exampleTracedTx
     resourceContext ''SELECT 1'' [])))) =
     [(''sql.query_type'', StrV ''Exec''), (''resource.name'', StrV ''SELECT 1''),
      (''resource.name'', StrV ''mine'')] \<and>
   spanTag (hd (finishedSpans (snd (tracedTx_Exec exampleRuntime exampleTracedTx
     resourceContext ''SELECT 1'' [])))) ext_ResourceName = Some (StrV ''mine'') \<and>
   spanTag (hd (finishedSpans (snd (tracedTx_Exec exampleRuntime exampleTracedTx
     resourceContext ''SELECT 1'' [])))) ext_ResourceName \<noteq> Some (StrV ''SELECT 1'')"
  by (simp add: model_defs example_defs ext_defs spanTag_def spanWrites_def)

section \<open>The span identifier\<close>

lemma Prepare_spanID:
  "s \<in> set (finishedSpans (snd (tracedTx_Prepare rt t ctx name query))) \<Longrightarrow>
     spanIDOverride (startOptions s) =
       Some (injectedSpanID rt (traceParams t) ctx query
         (if dbmPropagationMode (cfg (traceParams t)) = DBMPropagationModeFull
          then DBMPropagationModeService else dbmPropagationMode (cfg (traceParams t))))"
  by (auto simp add: Prepare_spans Let_def spanIDOverride_emittedSpan
      split: outcome.splits if_splits)

lemma Exec_spanID:
  "s \<in> set (finishedSpans (snd (tracedTx_Exec rt t ctx query args))) \<Longrightarrow>
     spanIDOverride (startOptions s) =
       Some (injectedSpanID rt (traceParams t) ctx query (dbmPropagationMode (cfg (traceParams t))))"
  by (auto simp add: Exec_spans Let_def spanIDOverride_emittedSpan
      split: outcome.splits if_splits)

lemma Query_spanID:
  "s \<in> set (finishedSpans (snd (tracedTx_Query rt t ctx query args))) \<Longrightarrow>
     spanIDOverride (startOptions s) =
       Some (injectedSpanID rt (traceParams t) ctx query (dbmPropagationMode (cfg (traceParams t))))"
  by (auto simp add: Query_spans Let_def spanIDOverride_emittedSpan
      split: outcome.splits if_splits)

lemma QueryRow_spanID:
  "s \<in> set (finishedSpans (snd (tracedTx_QueryRow rt t ctx query args))) \<Longrightarrow>
     spanIDOverride (startOptions s) =
       Some (injectedSpanID rt (traceParams t) ctx query (dbmPropagationMode (cfg (traceParams t))))"
  by (auto simp add: QueryRow_spans Let_def spanIDOverride_emittedSpan
      split: outcome.splits if_splits)

text \<open>
  C4. For every SQL-bearing operation, the span identifier that the comment injector returns,
  which is the identifier the carrier generated during injection, is the same 64-bit value
  that is passed as the span-id-override option when the span of that operation is created.
\<close>

theorem injected_span_id_is_span_id:
  "(let tp = traceParams t;
        mode = dbmPropagationMode (cfg tp);
        prepareMode = (if mode = DBMPropagationModeFull then DBMPropagationModeService else mode)
    in (\<forall>s \<in> set (finishedSpans (snd (tracedTx_Prepare rt t ctx name query))).
          spanIDOverride (startOptions s) = Some (injectedSpanID rt tp ctx query prepareMode)) \<and>
       (\<forall>s \<in> set (finishedSpans (snd (tracedTx_Exec rt t ctx query args))).
          spanIDOverride (startOptions s) = Some (injectedSpanID rt tp ctx query mode)) \<and>
       (\<forall>s \<in> set (finishedSpans (snd (tracedTx_Query rt t ctx query args))).
          spanIDOverride (startOptions s) = Some (injectedSpanID rt tp ctx query mode)) \<and>
       (\<forall>s \<in> set (finishedSpans (snd (tracedTx_QueryRow rt t ctx query args))).
          spanIDOverride (startOptions s) = Some (injectedSpanID rt tp ctx query mode)) \<and>
       injectedSpanID rt tp ctx query mode =
         SpanID (fst (Inject rt \<lparr>Query = query, Mode = mode, DBServiceName = serviceName (cfg tp),
                                 SpanID = 0\<rparr> (SpanFromContext ctx))))"
  unfolding Let_def
  by (intro conjI ballI)
    (erule Prepare_spanID Exec_spanID Query_spanID QueryRow_spanID
     | simp add: injectedSpanID_def injectComments_carrier)+

theorem injected_span_id_is_span_id_witness:
  "injectedSpanID exampleRuntime exampleParams exampleContext ''SELECT 1'' DBMPropagationModeFull = 7 \<and>
   length (finishedSpans (snd (tracedTx_Exec exampleRuntime exampleTracedTx exampleContext
     ''SELECT 1'' []))) = 1 \<and>
   spanIDOverride (startOptions (hd (finishedSpans (snd (tracedTx_Exec exampleRuntime
     exampleTracedTx exampleContext ''SELECT 1'' []))))) = Some 7 \<and>
   spanIDOverride (startOptions (hd (finishedSpans (snd (tracedTx_Prepare exampleRuntime
     exampleTracedTx exampleContext ''stmt'' ''SELECT 1''))))) = Some 7 \<and>
   spanIDOverride (startOptions (hd (finishedSpans (snd (tracedTx_Query exampleRuntime
     exampleTracedTx exampleContext ''SELECT 1'' []))))) = Some 7 \<and>
   spanIDOverride (startOptions (hd (finishedSpans (snd (tracedTx_QueryRow exampleRuntime
     exampleTracedTx exampleContext ''SELECT 1'' []))))) = Some 7"
  using injected_span_id_is_span_id [where rt = exampleRuntime and t = exampleTracedTx
      and ctx = exampleContext and name = "''stmt''" and query = "''SELECT 1''" and args = "[]"]
  by (simp add: model_defs example_defs injectedSpanID_def)

section \<open>Suppression of spans\<close>

text \<open>
  C5. The span emitter checks suppression in order. When the operation kind is in the
  configured suppress-set it creates no span, whatever the error of the operation. Otherwise,
  when child-spans-only is enabled and the context holds no active span, it creates no span.
  Otherwise it starts exactly one span and finishes that span before it returns.
\<close>

theorem tryTrace_suppression:
  "(let evs = tryTrace tp ctx qtype query startTime err spanOpts;
        ignored = (case ignoreQueryTypes (cfg tp) of None \<Rightarrow> False | Some m \<Rightarrow> qtype \<in> m);
        orphan = (childSpansOnly (cfg tp) \<and> SpanFromContext ctx = None)
    in (ignored \<longrightarrow> spanStarts evs = [] \<and> finishedSpans evs = []) \<and>
       (\<not> ignored \<and> orphan \<longrightarrow> spanStarts evs = [] \<and> finishedSpans evs = []) \<and>
       (\<not> ignored \<and> \<not> orphan \<longrightarrow>
          length (spanStarts evs) = 1 \<and> length (finishedSpans evs) = 1 \<and>
          (\<exists>s. evs = [SpanStart (operationName s) (startOptions s), SpanFinish s])))"
proof (cases "suppressed tp ctx qtype")
  case True
  then have "tryTrace tp ctx qtype query startTime err spanOpts = []"
    by (simp add: tryTrace_eq)
  with True show ?thesis
    by (auto simp add: Let_def suppressed_def)
next
  case False
  let ?s = "emittedSpan tp ctx qtype query startTime err spanOpts"
  from False have "tryTrace tp ctx qtype query startTime err spanOpts =
      [SpanStart (operationName ?s) (startOptions ?s), SpanFinish ?s]"
    by (simp add: tryTrace_eq emittedSpan_def)
  with False show ?thesis
    by (auto simp add: Let_def suppressed_def)
qed

theorem tryTrace_suppression_witness:
  "QueryTypeExec \<in> {QueryTypeExec, QueryTypeCommit} \<and>
   spanStarts (tryTrace ignoringParams exampleContext QueryTypeExec ''SELECT 1'' 100
      (Some (Error ''closed'')) []) = [] \<and>
   finishedSpans (tryTrace ignoringParams exampleContext QueryTypeExec ''SELECT 1'' 100
      (Some (Error ''closed'')) []) = [] \<and>
   childSpansOnly (cfg childOnlyParams) \<and> SpanFromContext emptyContext = None \<and>
   spanStarts (tryTrace childOnlyParams emptyContext QueryTypeExec ''SELECT 1'' 100 None []) = [] \<and>
   finishedSpans (tryTrace childOnlyParams emptyContext QueryTypeExec ''SELECT 1'' 100 None []) = [] \<and>
   length (spanStarts (tryTrace childOnlyParams exampleContext QueryTypeExec ''SELECT 1'' 100
      None [])) = 1 \<and>
   length (finishedSpans (tryTrace childOnlyParams exampleContext QueryTypeExec ''SELECT 1'' 100
      None [])) = 1"
  using tryTrace_suppression [where tp = ignoringParams and ctx = exampleContext
      and qtype = QueryTypeExec and query = "''SELECT 1''" and startTime = 100
      and err = "Some (Error ''closed'')" and spanOpts = "[]"]
    tryTrace_suppression [where tp = childOnlyParams and ctx = emptyContext
      and qtype = QueryTypeExec and query = "''SELECT 1''" and startTime = 100
      and err = None and spanOpts = "[]"]
    tryTrace_suppression [where tp = childOnlyParams and ctx = exampleContext
      and qtype = QueryTypeExec and query = "''SELECT 1''" and startTime = 100
      and err = None and spanOpts = "[]"]
  by (simp add: Let_def ignoringParams_def childOnlyParams_def exampleConfig_def
      exampleContext_def emptyContext_def SpanFromContext_def)

section \<open>Error tagging\<close>

lemma errorTagRule_emittedSpan:
  "errorTagRule tp (concat (map optWrites spanOpts) @ suppliedTags tp ctx) (Returns err)
     (emittedSpan tp ctx qtype query startTime err spanOpts)"
proof -
  have k: "ext_Error \<notin> {ext_Component, ext_SpanKind, ext_DBSystem, ext_EventSampleRate,
                ''sql.query_type'', ext_ResourceName}"
    by (simp add: ext_defs)
  show ?thesis
    by (cases err)
      (simp_all add: errorTagRule_def errorTagged_emittedSpan spanTag_supplied [OF k]
        errorTag_def reportable_def)
qed

lemma errorTagRule_skip:
  assumes "ext_Error \<notin> set (map fst (concat (map optWrites spanOpts)))"
  shows "errorTagRule tp (suppliedTags tp ctx) (Returns err)
     (emittedSpan tp ctx qtype query startTime err spanOpts)"
  using errorTagRule_emittedSpan [of tp spanOpts ctx err qtype query startTime]
  unfolding errorTagRule_def by (simp only: lastWrite_skip [OF assms])

lemma errorTagRule_method:
  "errorTagRule tp (suppliedTags tp ctx) (Returns err)
     (emittedSpan tp ctx qtype query startTime err
        (withDBMTraceInjectedTag mode @ [WithSpanID i]))"
  "errorTagRule tp (suppliedTags tp ctx) (Returns err)
     (emittedSpan tp ctx qtype query startTime err [WithSpanID i])"
  "errorTagRule tp (suppliedTags tp ctx) (Returns err)
     (emittedSpan tp ctx qtype query startTime err [])"
  by (rule errorTagRule_skip, simp add: withDBMTraceInjectedTag_def ext_defs)+

text \<open>
  C6 (as amended). The emitter sets the error tag on the span if and only if the error of the
  operation is not nil and either no error classifier is configured or the classifier returns
  true for that error, and the error tag of the span is then that error. Otherwise the span
  carries a value under the error key only when a static config tag, the per-facade metadata
  or an ambient context tag stores one there. Every call that returns and is not suppressed
  finishes exactly one span, and every method returns the error of the delegated call to
  its caller unchanged.
\<close>

theorem error_tag_rule_and_passthrough:
  "(reportable tp err \<longleftrightarrow>
      (\<exists>e. err = Some e \<and>
           (errCheck (cfg tp) = None \<or> (\<exists>f. errCheck (cfg tp) = Some f \<and> f e)))) \<and>
   oneSpanUnless (suppressed tp ctx qtype)
     (errorTagRule tp (concat (map optWrites spanOpts) @ suppliedTags tp ctx) (Returns err))
     (finishedSpans (tryTrace tp ctx qtype query startTime err spanOpts)) \<and>
   returnedError (fst (LooselyTracedPool_BeginTx rt pool ctx txOptions)) =
     returnedError (PoolBeginTx pool (taskContext rt ctx (string_of QueryTypeBegin)) txOptions) \<and>
   oneSpanUnless
     (fst (LooselyTracedPool_BeginTx rt pool ctx txOptions) = Panics \<or>
      suppressed (poolTraceParams pool) ctx QueryTypeBegin)
     (errorTagRule (poolTraceParams pool) (suppliedTags (poolTraceParams pool) ctx)
        (returnedError (fst (LooselyTracedPool_BeginTx rt pool ctx txOptions))))
     (finishedSpans (snd (LooselyTracedPool_BeginTx rt pool ctx txOptions))) \<and>
   fst (tracedTx_Commit rt t ctx) =
     TxCommit (Tx t) (taskContext rt ctx (string_of QueryTypeCommit)) \<and>
   oneSpanUnless
     (fst (tracedTx_Commit rt t ctx) = Panics \<or>
      suppressed (traceParams t) ctx QueryTypeCommit)
     (errorTagRule (traceParams t) (suppliedTags (traceParams t) ctx)
        (fst (tracedTx_Commit rt t ctx)))
     (finishedSpans (snd (tracedTx_Commit rt t ctx))) \<and>
   fst (tracedTx_Rollback rt t ctx) =
     TxRollback (Tx t) (taskContext rt ctx (string_of QueryTypeRollback)) \<and>
   oneSpanUnless
     (fst (tracedTx_Rollback rt t ctx) = Panics \<or>
      suppressed (traceParams t) ctx QueryTypeRollback)
     (errorTagRule (traceParams t) (suppliedTags (traceParams t) ctx)
        (fst (tracedTx_Rollback rt t ctx)))
     (finishedSpans (snd (tracedTx_Rollback rt t ctx))) \<and>
   fst (tracedTx_Prepare rt t ctx name query) =
     TxPrepare (Tx t) (taskContext rt ctx (string_of QueryTypePrepare)) name
       (rewrittenSQL rt (traceParams t) ctx query
          (if dbmPropagationMode (cfg (traceParams t)) = DBMPropagationModeFull
           then DBMPropagationModeService else dbmPropagationMode (cfg (traceParams t)))) \<and>
   oneSpanUnless
     (fst (tracedTx_Prepare rt t ctx name query) = Panics \<or>
      suppressed (traceParams t) ctx QueryTypePrepare)
     (errorTagRule (traceParams t) (suppliedTags (traceParams t) ctx)
        (returnedError (fst (tracedTx_Prepare rt t ctx name query))))
     (finishedSpans (snd (tracedTx_Prepare rt t ctx name query))) \<and>
   fst (tracedTx_Exec rt t ctx query args) =
     TxExec (Tx t) (taskContext rt ctx (string_of QueryTypeExec))
       (rewrittenSQL rt (traceParams t) ctx query (dbmPropagationMode (cfg (traceParams t)))) args \<and>
   oneSpanUnless
     (fst (tracedTx_Exec rt t ctx query args) = Panics \<or>
      suppressed (traceParams t) ctx QueryTypeExec)
     (errorTagRule (traceParams t) (suppliedTags (traceParams t) ctx)
        (returnedError (fst (tracedTx_Exec rt t ctx query args))))
     (finishedSpans (snd (tracedTx_Exec rt t ctx query args))) \<and>
   fst (tracedTx_Query rt t ctx query args) =
     TxQuery (Tx t) (taskContext rt ctx (string_of QueryTypeQuery))
       (rewrittenSQL rt (traceParams t) ctx query (dbmPropagationMode (cfg (traceParams t)))) args \<and>
   oneSpanUnless
     (fst (tracedTx_Query rt t ctx query args) = Panics \<or>
      suppressed (traceParams t) ctx QueryTypeQuery)
     (errorTagRule (traceParams t) (suppliedTags (traceParams t) ctx)
        (returnedError (fst (tracedTx_Query rt t ctx query args))))
     (finishedSpans (snd (tracedTx_Query rt t ctx query args))) \<and>
   fst (tracedTx_CopyFrom rt t ctx tableName columnNames rowSrc) =
     TxCopyFrom (Tx t) (taskContext rt ctx (string_of QueryTypeCopyFrom)) tableName columnNames
       rowSrc \<and>
   oneSpanUnless
     (fst (tracedTx_CopyFrom rt t ctx tableName columnNames rowSrc) = Panics \<or>
      suppressed (traceParams t) ctx QueryTypeCopyFrom)
     (errorTagRule (traceParams t) (suppliedTags (traceParams t) ctx)
        (returnedError (fst (tracedTx_CopyFrom rt t ctx tableName columnNames rowSrc))))
     (finishedSpans (snd (tracedTx_CopyFrom rt t ctx tableName columnNames rowSrc)))"
proof -
  have "reportable tp err \<longleftrightarrow>
      (\<exists>e. err = Some e \<and>
           (errCheck (cfg tp) = None \<or> (\<exists>f. errCheck (cfg tp) = Some f \<and> f e)))"
    by (cases err; cases "errCheck (cfg tp)") (simp_all add: reportable_def)
  then show ?thesis
    by (intro conjI)
      (assumption
       | rule BeginTx_result Commit_result Rollback_result Prepare_result Exec_result
           Query_result CopyFrom_result
       | (rule oneSpanUnless_tryTrace, rule errorTagRule_emittedSpan)
       | (rule BeginTx_oneSpan Commit_oneSpan Rollback_oneSpan Prepare_oneSpan Exec_oneSpan
            Query_oneSpan CopyFrom_oneSpan, simp add: errorTagRule_method))+
qed

theorem error_tag_rule_and_passthrough_witness:
  "fst (tracedTx_Exec exampleRuntime failingTracedTx exampleContext ''SELECT 1'' []) =
     Returns ((), Some (Error ''closed'')) \<and>
   length (finishedSpans (snd (tracedTx_Exec exampleRuntime failingTracedTx exampleContext
     ''SELECT 1'' []))) = 1 \<and>
   errorTagged (hd (finishedSpans (snd (tracedTx_Exec exampleRuntime failingTracedTx
     exampleContext ''SELECT 1'' [])))) \<and>
   spanTag (hd (finishedSpans (snd (tracedTx_Exec exampleRuntime failingTracedTx
     exampleContext ''SELECT 1'' [])))) ext_Error = Some (ErrV (Error ''closed'')) \<and>
   fst (tracedTx_Exec exampleRuntime lenientTracedTx exampleContext ''SELECT 1'' []) =
     Returns ((), Some (Error ''closed'')) \<and>
   length (finishedSpans (snd (tracedTx_Exec exampleRuntime lenientTracedTx exampleContext
     ''SELECT 1'' []))) = 1 \<and>
   \<not> errorTagged (hd (finishedSpans (snd (tracedTx_Exec exampleRuntime lenientTracedTx
     exampleContext ''SELECT 1'' [])))) \<and>
   spanTag (hd (finishedSpans (snd (tracedTx_Exec exampleRuntime lenientTracedTx
     exampleContext ''SELECT 1'' [])))) ext_Error = None \<and>
   returnedError (fst (LooselyTracedPool_BeginTx exampleRuntime failingPool exampleContext ())) =
     Returns (Some (Error ''closed'')) \<and>
   errorTagged (hd (finishedSpans (snd (LooselyTracedPool_BeginTx exampleRuntime failingPool
     exampleContext ())))) \<and>
   length (finishedSpans (snd (tracedTx_CopyFrom exampleRuntime failingTracedTx exampleContext
     ''t'' [] ()))) = 1 \<and>
   errorTagged (hd (finishedSpans (snd (tracedTx_CopyFrom exampleRuntime failingTracedTx
     exampleContext ''t'' [] ())))) \<and>
   \<not> errorTagged (hd (finishedSpans (snd (tracedTx_Exec exampleRuntime errorKeyTracedTx
     exampleContext ''SELECT 1'' [])))) \<and>
   spanTag (hd (finishedSpans (snd (tracedTx_Exec exampleRuntime errorKeyTracedTx
     exampleContext ''SELECT 1'' [])))) ext_Error = Some (StrV ''boom'')"
  using error_tag_rule_and_passthrough [where rt = exampleRuntime and t = failingTracedTx
      and ctx = exampleContext and query = "''SELECT 1''" and args = "[]" and pool = failingPool
      and txOptions = "()" and tp = exampleParams and err = "Some (Error ''closed'')"
      and qtype = QueryTypeExec and startTime = 100 and spanOpts = "[]" and name = "''stmt''"
      and tableName = "''t''" and columnNames = "[]" and rowSrc = "()"]
    error_tag_rule_and_passthrough [where rt = exampleRuntime and t = lenientTracedTx
      and ctx = exampleContext and query = "''SELECT 1''" and args = "[]" and pool = failingPool
      and txOptions = "()" and tp = lenientParams and err = "Some (Error ''closed'')"
      and qtype = QueryTypeExec and startTime = 100 and spanOpts = "[]" and name = "''stmt''"
      and tableName = "''t''" and columnNames = "[]" and rowSrc = "()"]
    error_tag_rule_and_passthrough [where rt = exampleRuntime and t = errorKeyTracedTx
      and ctx = exampleContext and query = "''SELECT 1''" and args = "[]" and pool = examplePool
      and txOptions = "()" and tp = exampleParams and err = None
      and qtype = QueryTypeExec and startTime = 100 and spanOpts = "[]" and name = "''stmt''"
      and tableName = "''t''" and columnNames = "[]" and rowSrc = "()"]
  by (simp add: model_defs example_defs suppliedTags_def errorTagRule_def oneSpanUnless_def
      suppressed_def reportable_def taskContext_def rewrittenSQL_def configTags_def
      metaTags_def ambientTags_def strTags_def ext_defs)

text \<open>
  C6 as stated lets the span carry an error tag only for a reportable error. With per-facade
  metadata stored under the error key, \<^verbatim>\<open>Exec\<close> returns no error and its span carries a tag
  under the error key all the same.
\<close>

theorem error_key_counterexample:
  "fst (tracedTx_Exec exampleRuntime errorKeyTracedTx exampleContext ''SELECT 1'' []) =
     Returns ((), None) \<and>
   length (finishedSpans (snd (tracedTx_Exec exampleRuntime errorKeyTracedTx exampleContext
     ''SELECT 1'' []))) = 1 \<and>
   setTagCalls (hd (finishedSpans (snd (tracedTx_Exec exampleRuntime errorKeyTracedTx
     exampleContext ''SELECT 1'' [])))) =
     [(''sql.query_type'', StrV ''Exec''), (''resource.name'', StrV ''SELECT 1''),
      (''error'', StrV ''boom'')] \<and>
   spanTag (hd (finishedSpans (snd (tracedTx_Exec exampleRuntime errorKeyTracedTx
     exampleContext ''SELECT 1'' [])))) ext_Error = Some (StrV ''boom'')"
  by (simp add: model_defs example_defs ext_defs spanTag_def spanWrites_def)

section \<open>The propagation mode of Prepare\<close>

text \<open>
  C7. Prepare injects SQL comments with a propagation mode no stronger than service-only:
  a configured mode of full is forced down to service-only before the injection, and a
  weaker configured mode (disabled or service-only) is used unmodified.
\<close>

theorem prepare_mode_at_most_service:
  "(let mode = dbmPropagationMode (cfg (traceParams t));
        used = injectModes (snd (tracedTx_Prepare rt t ctx name query))
    in used = [if mode = DBMPropagationModeFull then DBMPropagationModeService else mode] \<and>
       list_all (\<lambda>m. strength m \<le> strength DBMPropagationModeService) used \<and>
       (mode = DBMPropagationModeFull \<longrightarrow> used = [DBMPropagationModeService]) \<and>
       (mode = DBMPropagationModeService \<longrightarrow> used = [DBMPropagationModeService]) \<and>
       (mode = DBMPropagationModeDisabled \<longrightarrow> used = [DBMPropagationModeDisabled]))"
proof -
  have used: "injectModes (snd (tracedTx_Prepare rt t ctx name query)) =
      [if dbmPropagationMode (cfg (traceParams t)) = DBMPropagationModeFull
       then DBMPropagationModeService else dbmPropagationMode (cfg (traceParams t))]"
    by (simp add: tracedTx_Prepare_def Let_def split_beta observation_append tryTrace_observed
        startTraceTask_observed injectComments_observed split: outcome.splits)
  show ?thesis
    unfolding Let_def used
    by (cases "dbmPropagationMode (cfg (traceParams t))") simp_all
qed

theorem prepare_mode_at_most_service_witness:
  "dbmPropagationMode (cfg (traceParams exampleTracedTx)) = DBMPropagationModeFull \<and>
   injectModes (snd (tracedTx_Prepare exampleRuntime exampleTracedTx exampleContext
     ''stmt'' ''SELECT 1'')) = [DBMPropagationModeService] \<and>
   dbmPropagationMode (cfg (traceParams serviceTracedTx)) = DBMPropagationModeService \<and>
   injectModes (snd (tracedTx_Prepare exampleRuntime serviceTracedTx exampleContext
     ''stmt'' ''SELECT 1'')) = [DBMPropagationModeService]"
  using prepare_mode_at_most_service [where rt = exampleRuntime and t = exampleTracedTx
      and ctx = exampleContext and name = "''stmt''" and query = "''SELECT 1''"]
    prepare_mode_at_most_service [where rt = exampleRuntime and t = serviceTracedTx
      and ctx = exampleContext and name = "''stmt''" and query = "''SELECT 1''"]
  by (simp add: Let_def exampleTracedTx_def serviceTracedTx_def exampleParams_def
      serviceParams_def exampleConfig_def)

section \<open>The span of QueryRow\<close>





section \<open>Failure of the comment injection\<close>

lemma injectComments_failure:
  assumes "Inject rt \<lparr>Query = query, Mode = mode, DBServiceName = serviceName (cfg tp),
                      SpanID = 0\<rparr> (SpanFromContext ctx) = (carrier, Some e)"
  shows "injectComments rt tp ctx query mode =
           ((Query carrier, SpanID carrier),
            [InjectCall \<lparr>Query = query, Mode = mode, DBServiceName = serviceName (cfg tp),
                         SpanID = 0\<rparr> (SpanFromContext ctx),
             LogWarn ''contrib/jackc/pgx.v5: failed to inject query comments: %v'' e])"
  using assms
  by (cases "SpanFromContext ctx") (simp_all add: injectComments_def Let_def)

lemma injectComments_warnings:
  "warnings (snd (injectComments rt tp ctx query mode)) =
     (case snd (Inject rt \<lparr>Query = query, Mode = mode, DBServiceName = serviceName (cfg tp),
                            SpanID = 0\<rparr> (SpanFromContext ctx)) of
        None \<Rightarrow> [] | Some e \<Rightarrow> [e])"
  by (cases "SpanFromContext ctx")
    (simp_all add: injectComments_def Let_def split_beta split: option.splits)

lemma Prepare_warnings:
  "warnings (snd (tracedTx_Prepare rt t ctx name query)) =
     warnings (snd (injectComments rt (traceParams t) ctx query
       (if dbmPropagationMode (cfg (traceParams t)) = DBMPropagationModeFull
        then DBMPropagationModeService else dbmPropagationMode (cfg (traceParams t)))))"
  by (simp add: tracedTx_Prepare_def Let_def split_beta observation_append tryTrace_observed
      startTraceTask_observed split: outcome.splits)

lemma Exec_warnings:
  "warnings (snd (tracedTx_Exec rt t ctx query args)) =
     warnings (snd (injectComments rt (traceParams t) ctx query
       (dbmPropagationMode (cfg (traceParams t)))))"
  by (simp add: tracedTx_Exec_def Let_def split_beta observation_append tryTrace_observed
      startTraceTask_observed split: outcome.splits)

lemma Query_warnings:
  "warnings (snd (tracedTx_Query rt t ctx query args)) =
     warnings (snd (injectComments rt (traceParams t) ctx query
       (dbmPropagationMode (cfg (traceParams t)))))"
  by (simp add: tracedTx_Query_def Let_def split_beta observation_append tryTrace_observed
      startTraceTask_observed split: outcome.splits)

lemma QueryRow_warnings:
  "warnings (snd (tracedTx_QueryRow rt t ctx query args)) =
     warnings (snd (injectComments rt (traceParams t) ctx query
       (dbmPropagationMode (cfg (traceParams t)))))"
  by (simp add: tracedTx_QueryRow_def Let_def split_beta observation_append tryTrace_observed
      startTraceTask_observed split: outcome.splits)

text \<open>
  C9. When the injection of the SQL comment fails, the failure is logged as a warning and
  swallowed: the comment injector still returns the query and the span identifier of the
  carrier, and the database call proceeds. Every SQL-bearing method logs exactly the failures
  of its one injection, delegates once, with the SQL the injector returned, and returns the
  outcome of the delegated call, its result and its error, whether or not the injection failed.
\<close>

theorem injection_failure_is_swallowed:
  "(let tp = traceParams t;
        configured = dbmPropagationMode (cfg tp);
        prepareMode = (if configured = DBMPropagationModeFull then DBMPropagationModeService
                       else configured);
        carrier = \<lparr>Query = query, Mode = mode, DBServiceName = serviceName (cfg tp), SpanID = 0\<rparr>
    in (\<forall>carrier' e. Inject rt carrier (SpanFromContext ctx) = (carrier', Some e) \<longrightarrow>
          injectComments rt tp ctx query mode =
            ((Query carrier', SpanID carrier'),
             [InjectCall carrier (SpanFromContext ctx),
              LogWarn ''contrib/jackc/pgx.v5: failed to inject query comments: %v'' e])) \<and>
       warnings (snd (injectComments rt tp ctx query mode)) =
         (case snd (Inject rt carrier (SpanFromContext ctx)) of None \<Rightarrow> [] | Some e \<Rightarrow> [e]) \<and>
       warnings (snd (tracedTx_Prepare rt t ctx name query)) =
         warnings (snd (injectComments rt tp ctx query prepareMode)) \<and>
       delegatedSQL (snd (tracedTx_Prepare rt t ctx name query)) =
         [rewrittenSQL rt tp ctx query prepareMode] \<and>
       fst (tracedTx_Prepare rt t ctx name query) =
         TxPrepare (Tx t) (taskContext rt ctx (string_of QueryTypePrepare)) name
           (rewrittenSQL rt tp ctx query prepareMode) \<and>
       warnings (snd (tracedTx_Exec rt t ctx query args)) =
         warnings (snd (injectComments rt tp ctx query configured)) \<and>
       delegatedSQL (snd (tracedTx_Exec rt t ctx query args)) =
         [rewrittenSQL rt tp ctx query configured] \<and>
       fst (tracedTx_Exec rt t ctx query args) =
         TxExec (Tx t) (taskContext rt ctx (string_of QueryTypeExec))
           (rewrittenSQL rt tp ctx query configured) args \<and>
       warnings (snd (tracedTx_Query rt t ctx query args)) =
         warnings (snd (injectComments rt tp ctx query configured)) \<and>
       delegatedSQL (snd (tracedTx_Query rt t ctx query args)) =
         [rewrittenSQL rt tp ctx query configured] \<and>
       fst (tracedTx_Query rt t ctx query args) =
         TxQuery (Tx t) (taskContext rt ctx (string_of QueryTypeQuery))
           (rewrittenSQL rt tp ctx query configured) args \<and>
       warnings (snd (tracedTx_QueryRow rt t ctx query args)) =
         warnings (snd (injectComments rt tp ctx query configured)) \<and>
       delegatedSQL (snd (tracedTx_QueryRow rt t ctx query args)) =
         [rewrittenSQL rt tp ctx query configured] \<and>
       fst (tracedTx_QueryRow rt t ctx query args) =
         TxQueryRow (Tx t) (taskContext rt ctx (string_of QueryTypeQuery))
           (rewrittenSQL rt tp ctx query configured) args)"
  unfolding Let_def
  by (intro conjI allI impI)
    (erule injectComments_failure
     | rule injectComments_warnings Prepare_warnings Prepare_delegated Prepare_result
         Exec_warnings Exec_delegated Exec_result Query_warnings Query_delegated Query_result
         QueryRow_warnings QueryRow_delegated QueryRow_result)+

theorem injection_failure_is_swallowed_witness:
  "Inject failingRuntime
     \<lparr>Query = ''SELECT 1'', Mode = DBMPropagationModeFull, DBServiceName = ''postgres.db'',
      SpanID = 0\<rparr> (SpanFromContext exampleContext) =
     (\<lparr>Query = ''SELECT 1'', Mode = DBMPropagationModeFull, DBServiceName = ''postgres.db'',
       SpanID = 7\<rparr>, Some (Error ''carrier'')) \<and>
   fst (injectComments failingRuntime exampleParams exampleContext ''SELECT 1''
     DBMPropagationModeFull) = (''SELECT 1'', 7) \<and>
   warnings (snd (tracedTx_Exec failingRuntime failingTracedTx exampleContext ''SELECT 1'' [])) =
     [Error ''carrier''] \<and>
   delegatedSQL (snd (tracedTx_Exec failingRuntime failingTracedTx exampleContext
     ''SELECT 1'' [])) = [''SELECT 1''] \<and>
   fst (tracedTx_Exec failingRuntime failingTracedTx exampleContext ''SELECT 1'' []) =
     Returns ((), Some (Error ''closed'')) \<and>
   fst (tracedTx_QueryRow failingRuntime failingTracedTx exampleContext ''SELECT 1'' []) =
     Returns ()"
  using injection_failure_is_swallowed [where rt = failingRuntime and t = failingTracedTx
      and ctx = exampleContext and name = "''stmt''" and query = "''SELECT 1''" and args = "[]"
      and mode = DBMPropagationModeFull]
  by (simp add: Let_def failingRuntime_def failingInject_def failingTracedTx_def
      exampleParams_def exampleConfig_def exampleContext_def failingTx_def SpanFromContext_def
      rewrittenSQL_def taskContext_def)

section \<open>The trace-injected marker\<close>

lemma startOptions_emittedSpan:
  "startOptions (emittedSpan tp ctx qtype query startTime err spanOpts) =
     spanOpts @ emitterOptions tp startTime"
  by (simp add: emittedSpan_def)

lemma markerRule_emittedSpan:
  "markerRule tp ctx
     (withDBMTraceInjectedTag mode @ [WithSpanID i] @ emitterOptions tp startTime)
     (if mode = DBMPropagationModeFull then Some (BoolV True) else None)
     (emittedSpan tp ctx qtype query startTime err
        (withDBMTraceInjectedTag mode @ [WithSpanID i]))"
proof -
  have k: "keyDBMTraceInjected \<notin> {ext_Component, ext_SpanKind, ext_DBSystem,
      ext_EventSampleRate, ''sql.query_type'', ext_ResourceName}"
    by (simp add: ext_defs)
  have e: "map_of (rev (errorTag tp err)) keyDBMTraceInjected = None"
    by (rule errorTag_other) (simp add: ext_defs)
  have p: "map_of (rev (concat (map optWrites (withDBMTraceInjectedTag mode @ [WithSpanID i]))))
      keyDBMTraceInjected = (if mode = DBMPropagationModeFull then Some (BoolV True) else None)"
    by (simp add: withDBMTraceInjectedTag_def)
  show ?thesis
    unfolding markerRule_def
    by (simp only: spanTag_supplied [OF k] e lastWrite_append p startOptions_emittedSpan
        option.case append_assoc simp_thms)
qed

lemma markerRule_prepare:
  "markerRule tp ctx ([WithSpanID i] @ emitterOptions tp startTime) None
     (emittedSpan tp ctx qtype query startTime err [WithSpanID i])"
  using markerRule_emittedSpan [of tp ctx DBMPropagationModeService i startTime qtype query err]
  by (simp add: withDBMTraceInjectedTag_def)

text \<open>
  C10 (as amended). Prepare never passes the trace-injected marker to the span emitter, even
  when the configured propagation mode is full, because the marker is computed from the mode
  after the downgrade: the only option of Prepare is the span identifier. Exec, Query and
  QueryRow pass the marker exactly when the configured mode is full. The marker tag of the
  span is the value that a static config tag, the per-facade metadata or an ambient context
  tag stores under the marker key when one of them does, and otherwise the marker passed:
  none for Prepare, \<open>true\<close> exactly in full mode for Exec, Query and QueryRow.
\<close>

theorem marker_passed_outside_prepare:
  "(let tp = traceParams t;
        mode = dbmPropagationMode (cfg tp);
        prepareMode = (if mode = DBMPropagationModeFull then DBMPropagationModeService else mode);
        passed = (if mode = DBMPropagationModeFull then Some (BoolV True) else None)
    in oneSpanUnless
         (fst (tracedTx_Prepare rt t ctx name query) = Panics \<or>
          suppressed tp ctx QueryTypePrepare)
         (markerRule tp ctx
            ([WithSpanID (injectedSpanID rt tp ctx query prepareMode)] @
             emitterOptions tp (Now rt))
            None)
         (finishedSpans (snd (tracedTx_Prepare rt t ctx name query))) \<and>
       oneSpanUnless
         (fst (tracedTx_Exec rt t ctx query args) = Panics \<or> suppressed tp ctx QueryTypeExec)
         (markerRule tp ctx
            (withDBMTraceInjectedTag mode @ [WithSpanID (injectedSpanID rt tp ctx query mode)] @
             emitterOptions tp (Now rt))
            passed)
         (finishedSpans (snd (tracedTx_Exec rt t ctx query args))) \<and>
       oneSpanUnless
         (fst (tracedTx_Query rt t ctx query args) = Panics \<or> suppressed tp ctx QueryTypeQuery)
         (markerRule tp ctx
            (withDBMTraceInjectedTag mode @ [WithSpanID (injectedSpanID rt tp ctx query mode)] @
             emitterOptions tp (Now rt))
            passed)
         (finishedSpans (snd (tracedTx_Query rt t ctx query args))) \<and>
       oneSpanUnless
         (fst (tracedTx_QueryRow rt t ctx query args) = Panics \<or>
          suppressed tp ctx QueryTypeQuery)
         (markerRule tp ctx
            (withDBMTraceInjectedTag mode @ [WithSpanID (injectedSpanID rt tp ctx query mode)] @
             emitterOptions tp (Now rt))
            passed)
         (finishedSpans (snd (tracedTx_QueryRow rt t ctx query args))) \<and>
       withDBMTraceInjectedTag mode =
         (if mode = DBMPropagationModeFull then [Tag keyDBMTraceInjected (BoolV True)] else []))"
  unfolding Let_def
  by (intro conjI)
    ((rule Prepare_oneSpan, rule markerRule_prepare)
     | (rule Exec_oneSpan Query_oneSpan QueryRow_oneSpan, rule markerRule_emittedSpan)
     | simp add: withDBMTraceInjectedTag_def)+

theorem marker_passed_outside_prepare_witness:
  "dbmPropagationMode (cfg (traceParams exampleTracedTx)) = DBMPropagationModeFull \<and>
   length (finishedSpans (snd (tracedTx_Prepare exampleRuntime exampleTracedTx exampleContext
     ''stmt'' ''SELECT 1''))) = 1 \<and>
   spanTag (hd (finishedSpans (snd (tracedTx_Prepare exampleRuntime exampleTracedTx
     exampleContext ''stmt'' ''SELECT 1'')))) keyDBMTraceInjected = None \<and>
   spanTag (hd (finishedSpans (snd (tracedTx_Exec exampleRuntime exampleTracedTx
     exampleContext ''SELECT 1'' [])))) keyDBMTraceInjected = Some (BoolV True) \<and>
   spanTag (hd (finishedSpans (snd (tracedTx_Query exampleRuntime exampleTracedTx
     exampleContext ''SELECT 1'' [])))) keyDBMTraceInjected = Some (BoolV True) \<and>
   spanTag (hd (finishedSpans (snd (tracedTx_QueryRow exampleRuntime exampleTracedTx
     exampleContext ''SELECT 1'' [])))) keyDBMTraceInjected = Some (BoolV True) \<and>
   dbmPropagationMode (cfg (traceParams serviceTracedTx)) = DBMPropagationModeService \<and>
   spanTag (hd (finishedSpans (snd (tracedTx_Exec exampleRuntime serviceTracedTx
     exampleContext ''SELECT 1'' [])))) keyDBMTraceInjected = None \<and>
   spanTag (hd (finishedSpans (snd (tracedTx_Prepare exampleRuntime taggedTracedTx
     taggedContext ''stmt'' ''SELECT 1'')))) keyDBMTraceInjected = Some (StrV ''static'')"
  using marker_passed_outside_prepare [where rt = exampleRuntime and t = exampleTracedTx
      and ctx = exampleContext and name = "''stmt''" and query = "''SELECT 1''" and args = "[]"]
    marker_passed_outside_prepare [where rt = exampleRuntime and t = serviceTracedTx
      and ctx = exampleContext and name = "''stmt''" and query = "''SELECT 1''" and args = "[]"]
    marker_passed_outside_prepare [where rt = exampleRuntime and t = taggedTracedTx
      and ctx = taggedContext and name = "''stmt''" and query = "''SELECT 1''" and args = "[]"]
  by (simp add: model_defs example_defs suppliedTags_def markerRule_def oneSpanUnless_def
      suppressed_def configTags_def metaTags_def ambientTags_def strTags_def injectedSpanID_def
      emitterOptions_def analyticsTag_def tagOptions_def ext_defs)

text \<open>
  C10 as stated gives a Prepare span no marker tag on every input, and the other spans the
  marker exactly in full mode. With a static config tag stored under the marker key, the
  span of \<^verbatim>\<open>Prepare\<close> carries that tag, and so does the span of \<^verbatim>\<open>Exec\<close> in service-only
  mode.
\<close>

theorem marker_key_counterexample:
  "dbmPropagationMode (cfg (traceParams taggedTracedTx)) = DBMPropagationModeFull \<and>
   length (finishedSpans (snd (tracedTx_Prepare exampleRuntime taggedTracedTx taggedContext
     ''stmt'' ''SELECT 1''))) = 1 \<and>
   startOptions (hd (finishedSpans (snd (tracedTx_Prepare exampleRuntime taggedTracedTx
     taggedContext ''stmt'' ''SELECT 1'')))) =
     [WithSpanID 7, ServiceName ''postgres.db'', SpanType ''sql'', StartTime 100,
      Tag ''component'' (StrV ''pgx/v5''), Tag ''span.kind'' (StrV ''client''),
      Tag ''db.system'' (StrV ''postgres''),
      Tag ''env'' (StrV ''static''), Tag ''team'' (StrV ''static''),
      Tag ''_dd.dbm_trace_injected'' (StrV ''static''),
      Tag ''_dd1.sr.eausr'' (FloatV (Number (1 / 2)))] \<and>
   spanTag (hd (finishedSpans (snd (tracedTx_Prepare exampleRuntime taggedTracedTx
     taggedContext ''stmt'' ''SELECT 1'')))) keyDBMTraceInjected = Some (StrV ''static'') \<and>
   dbmPropagationMode (cfg (traceParams taggedServiceTracedTx)) = DBMPropagationModeService \<and>
   spanTag (hd (finishedSpans (snd (tracedTx_Exec exampleRuntime taggedServiceTracedTx
     taggedContext ''SELECT 1'' [])))) keyDBMTraceInjected = Some (StrV ''static'')"
  by (simp add: model_defs example_defs ext_defs spanTag_def spanWrites_def)

end
